theory Spec2Isabelle
  imports Complex_Main
begin

section \<open>Python values and the patient dictionary\<close>

text \<open>
  \<^verbatim>\<open>classify_patient_aiims_atp(data)\<close> of \<^verbatim>\<open>src/app.py\<close> reads a Python dict with string
  keys. The values the form supplies are booleans (checkboxes), ints and floats (number
  inputs and the slider) and a one-letter string (the AVPU scale). An int is unbounded, as
  in Python. A float is modelled by the rational it denotes: every finite double is a
  rational, Python compares ints and floats by their exact values, and every constant the
  classifier compares against (22, 10, 90, 1.0, 40.0, 35.0, ...) is exactly representable.
  Infinities and NaN are not values of the model.
\<close>

datatype pyval = PBool bool | PInt int | PFloat rat | PStr string

datatype error = KeyError string | TypeError | ZeroDivisionError | OverflowError

type_synonym patient_data = "string \<rightharpoonup> pyval"

text \<open>\<^verbatim>\<open>data[k]\<close>: a missing key raises KeyError.\<close>

definition getitem :: "patient_data \<Rightarrow> string \<Rightarrow> error + pyval" where
  "getitem d k = (case d k of None \<Rightarrow> Inl (KeyError k) | Some v \<Rightarrow> Inr v)"

text \<open>Truth value of an object used as a condition.\<close>

fun truthy :: "pyval \<Rightarrow> bool" where
  "truthy (PBool b) = b"
| "truthy (PInt i) = (i \<noteq> 0)"
| "truthy (PFloat x) = (x \<noteq> 0)"
| "truthy (PStr s) = (s \<noteq> [])"

text \<open>Numeric value of an operand; \<^verbatim>\<open>bool\<close> is a subclass of \<^verbatim>\<open>int\<close>, a string is no number.\<close>

fun num_of :: "pyval \<Rightarrow> rat option" where
  "num_of (PBool b) = Some (if b then 1 else 0)"
| "num_of (PInt i) = Some (of_int i)"
| "num_of (PFloat x) = Some x"
| "num_of (PStr s) = None"

text \<open>\<^verbatim>\<open>data[k]\<close> as an operand of \<^verbatim>\<open>or\<close> inside an \<^verbatim>\<open>if\<close>.\<close>

definition test :: "patient_data \<Rightarrow> string \<Rightarrow> error + bool" where
  "test d k = (case getitem d k of Inl e \<Rightarrow> Inl e | Inr v \<Rightarrow> Inr (truthy v))"

text \<open>\<^verbatim>\<open>data[k] < c\<close>, \<^verbatim>\<open>data[k] > c\<close>, ...: ordering a string against a number raises TypeError.\<close>

definition compare :: "(rat \<Rightarrow> rat \<Rightarrow> bool) \<Rightarrow> patient_data \<Rightarrow> string \<Rightarrow> rat \<Rightarrow> error + bool" where
  "compare rel d k c =
     (case getitem d k of
        Inl e \<Rightarrow> Inl e
      | Inr v \<Rightarrow> (case num_of v of None \<Rightarrow> Inl TypeError | Some x \<Rightarrow> Inr (rel x c)))"

text \<open>A chain \<^verbatim>\<open>c1 or c2 or ...\<close>: operands are evaluated left to right until one is true.\<close>

fun any_of :: "(error + bool) list \<Rightarrow> error + bool" where
  "any_of [] = Inr False"
| "any_of (c # cs) =
     (case c of Inl e \<Rightarrow> Inl e | Inr b \<Rightarrow> if b then Inr True else any_of cs)"

text \<open>\<^verbatim>\<open>a and b\<close>: the right operand is evaluated only when the left one is true.\<close>

definition both :: "error + bool \<Rightarrow> error + bool \<Rightarrow> error + bool" where
  "both a b = (case a of Inl e \<Rightarrow> Inl e | Inr x \<Rightarrow> if x then b else Inr False)"

text \<open>\<^verbatim>\<open>x != 0\<close>: a string is never equal to a number.\<close>

fun ne_zero :: "pyval \<Rightarrow> bool" where
  "ne_zero (PBool b) = b"
| "ne_zero (PInt i) = (i \<noteq> 0)"
| "ne_zero (PFloat x) = (x \<noteq> 0)"
| "ne_zero (PStr s) = True"

text \<open>The value of an operand that is an int (\<^verbatim>\<open>bool\<close> included).\<close>

fun int_of :: "pyval \<Rightarrow> int option" where
  "int_of (PBool b) = Some (if b then 1 else 0)"
| "int_of (PInt i) = Some i"
| "int_of (PFloat x) = None"
| "int_of (PStr s) = None"

text \<open>
  The least magnitude that no longer rounds to a finite double: halfway between the
  largest double, \<open>2^1024 - 2^971\<close>, and \<open>2^1024\<close>.
\<close>

definition float_limit :: rat where
  "float_limit = 2 ^ 1024 - 2 ^ 970"

text \<open>Converting an operand to a double fails for an int of magnitude \<open>float_limit\<close> or more.\<close>

definition too_large :: "pyval \<Rightarrow> bool" where
  "too_large v = (case int_of v of Some i \<Rightarrow> float_limit \<le> \<bar>of_int i\<bar> | None \<Rightarrow> False)"

text \<open>
  \<^verbatim>\<open>x / y\<close> (true division). A string operand raises TypeError. Two ints are divided
  exactly and the quotient is rounded to a double: a zero divisor raises
  ZeroDivisionError, a quotient beyond the doubles raises OverflowError. When an operand is
  a float, both are converted to doubles first, which raises OverflowError for an int that
  is too large; then a zero divisor raises ZeroDivisionError. The model keeps the exact
  quotient where Python rounds it (or returns an infinity); the only use of the quotient
  is the comparison with 1.0, reached only with heart rate in 50..120 and systolic
  pressure in 90..220, where the rounded quotient exceeds 1.0 exactly when the exact one
  does.
\<close>

definition truediv :: "pyval \<Rightarrow> pyval \<Rightarrow> error + rat" where
  "truediv x y =
     (case (num_of x, num_of y) of
        (Some a, Some b) \<Rightarrow>
          (case (int_of x, int_of y) of
             (Some i, Some j) \<Rightarrow>
               if j = 0 then Inl ZeroDivisionError
               else if float_limit \<le> \<bar>a / b\<bar> then Inl OverflowError
               else Inr (a / b)
           | _ \<Rightarrow>
               if too_large x \<or> too_large y then Inl OverflowError
               else if b = 0 then Inl ZeroDivisionError
               else Inr (a / b))
      | _ \<Rightarrow> Inl TypeError)"

section \<open>The classifier\<close>

text \<open>Line 26: \<^verbatim>\<open>shock_index = data['hr'] / data['sbp'] if data['sbp'] != 0 else 0\<close>.\<close>

definition shock_index :: "patient_data \<Rightarrow> error + rat" where
  "shock_index d =
     (case getitem d ''sbp'' of
        Inl e \<Rightarrow> Inl e
      | Inr s \<Rightarrow>
          if ne_zero s then
            (case getitem d ''hr'' of
               Inl e \<Rightarrow> Inl e
             | Inr h \<Rightarrow> (case getitem d ''sbp'' of Inl e \<Rightarrow> Inl e | Inr s' \<Rightarrow> truediv h s'))
          else Inr 0)"

subsection \<open>The conditions of the \<^verbatim>\<open>if\<close> statements\<close>

definition airway :: "patient_data \<Rightarrow> error + bool" where
  "airway d = any_of [test d ''stridor'', test d ''angioedema'', test d ''active_seizures'']"

definition breathing :: "patient_data \<Rightarrow> error + bool" where
  "breathing d =
     any_of [test d ''talking_incomplete_sentences'', test d ''audible_wheeze'',
             compare (>) d ''rr'' 22, compare (<) d ''rr'' 10, compare (<) d ''spo2'' 90]"

definition circulation :: "patient_data \<Rightarrow> error + bool" where
  "circulation d =
     (case shock_index d of
        Inl e \<Rightarrow> Inl e
      | Inr si \<Rightarrow>
          any_of [compare (<) d ''hr'' 50, compare (>) d ''hr'' 120,
                  compare (<) d ''sbp'' 90, compare (>) d ''sbp'' 220,
                  compare (<) d ''dbp'' 60, compare (>) d ''dbp'' 110,
                  Inr (si > 1), test d ''active_bleeding''])"

definition altered_sensorium :: "patient_data \<Rightarrow> error + bool" where
  "altered_sensorium d =
     (case getitem d ''avpu'' of
        Inl e \<Rightarrow> Inl e
      | Inr v \<Rightarrow> Inr (v \<in> set [PStr ''V'', PStr ''P'', PStr ''U'']))"

definition time_sensitive :: "patient_data \<Rightarrow> error + bool" where
  "time_sensitive d =
     any_of [test d ''acute_chest_pain_lt_24hr'', test d ''suspected_stroke_lt_24hr'',
             test d ''acute_sob_lt_12hr'', compare (>) d ''pain_score'' 7,
             test d ''sudden_severe_headache'', test d ''acute_limb_ischemia'',
             test d ''history_syncope'', test d ''abdominal_pain_sudden_onset'',
             test d ''fever_immunocompromised'', test d ''acute_urinary_retention'',
             compare (>) d ''temp'' 40, compare (<) d ''temp'' 35]"

definition other_urgent :: "patient_data \<Rightarrow> error + bool" where
  "other_urgent d =
     any_of [test d ''agitated_violent'', test d ''suspected_poisoning_bite'',
             test d ''pregnant_3rd_trimester_abdominal_bleed'']"

definition yellow_vitals :: "patient_data \<Rightarrow> error + bool" where
  "yellow_vitals d =
     any_of [both (compare (\<ge>) d ''rr'' 20) (compare (\<le>) d ''rr'' 22),
             both (compare (\<ge>) d ''hr'' 100) (compare (\<le>) d ''hr'' 120),
             both (compare (\<ge>) d ''sbp'' 180) (compare (\<le>) d ''sbp'' 220),
             both (compare (\<ge>) d ''dbp'' 100) (compare (\<le>) d ''dbp'' 110),
             both (compare (\<ge>) d ''temp'' 38) (compare (\<le>) d ''temp'' 40)]"

definition yellow_symptoms :: "patient_data \<Rightarrow> error + bool" where
  "yellow_symptoms d =
     any_of [both (compare (\<ge>) d ''pain_score'' 4) (compare (\<le>) d ''pain_score'' 7),
             test d ''vomiting_diarrhea_persistent'', test d ''minor_trauma_with_deformity'',
             test d ''fever_no_red_flags'', test d ''urinary_symptoms_moderate'',
             test d ''older_adult_minor_fall'', test d ''pediatric_fever_irritable'',
             test d ''chronic_condition_exacerbation'']"

subsection \<open>The reason strings\<close>

definition reason_airway :: string where
  "reason_airway = ''Airway compromise (Stridor/Angioedema/Active Seizures)''"

definition reason_breathing :: string where
  "reason_breathing = ''Breathing compromise (Abnormal RR/SpO2, Dyspnea, Wheeze)''"

definition reason_circulation :: string where
  "reason_circulation =
     ''Circulation compromise (Abnormal HR/BP, Shock Index >1, Active Bleeding)''"

definition reason_sensorium :: string where
  "reason_sensorium = ''Altered sensorium (AVPU < Alert)''"

definition reason_time_sensitive :: string where
  "reason_time_sensitive =
     ''Time-sensitive/Urgent condition requiring immediate attention (including extreme temp).''"

definition reason_other_urgent :: string where
  "reason_other_urgent =
     ''Other highly urgent condition (Agitation/Poisoning/Pregnancy complication).''"

definition reason_yellow_vitals :: string where
  "reason_yellow_vitals =
     ''Vital signs slightly abnormal, warranting urgent assessment (including fever).''"

definition reason_yellow_symptoms :: string where
  "reason_yellow_symptoms = ''Semi-urgent condition requiring evaluation/admission.''"

definition reason_default :: string where
  "reason_default = ''No specific red or yellow criteria met. Appears non-urgent.''"

definition reason_minor :: string where
  "reason_minor = ''Minor condition with stable vitals.''"

subsection \<open>The statements of the function body\<close>

text \<open>
  The function's variables: the parameter \<^verbatim>\<open>data\<close> (a reference to the caller's dict) and
  the locals \<^verbatim>\<open>triage_level\<close> and \<^verbatim>\<open>reasons\<close>. A statement either raises, returns, or
  completes and hands the frame to the next statement.
\<close>

record frame =
  data :: patient_data
  triage_level :: string
  reasons :: "string list"

datatype outcome = Raise error frame | Return frame | Next frame

text \<open>
  The six RED statements (lines 14-17, 19-23, 27-32, 34-37, 40-48, 51-55) have one shape:
  \<^verbatim>\<open>if cond: reasons.append(reason); triage_level = "RED"; return triage_level, reasons\<close>.
\<close>

definition red_stmt :: "(patient_data \<Rightarrow> error + bool) \<Rightarrow> string \<Rightarrow> frame \<Rightarrow> outcome" where
  "red_stmt cond reason f =
     (case cond (data f) of
        Inl e \<Rightarrow> Raise e f
      | Inr b \<Rightarrow>
          if b then Return (f\<lparr>reasons := reasons f @ [reason], triage_level := ''RED''\<rparr>)
          else Next f)"

text \<open>Lines 59-65.\<close>

definition yellow_vitals_stmt :: "frame \<Rightarrow> outcome" where
  "yellow_vitals_stmt f =
     (case yellow_vitals (data f) of
        Inl e \<Rightarrow> Raise e f
      | Inr b \<Rightarrow>
          if b then Next (f\<lparr>reasons := reasons f @ [reason_yellow_vitals],
                            triage_level := ''YELLOW''\<rparr>)
          else Next f)"

text \<open>Lines 69-78.\<close>

definition yellow_symptoms_stmt :: "frame \<Rightarrow> outcome" where
  "yellow_symptoms_stmt f =
     (case yellow_symptoms (data f) of
        Inl e \<Rightarrow> Raise e f
      | Inr b \<Rightarrow>
          if b then
            (if triage_level f = ''GREEN'' then
               Next (f\<lparr>reasons := reasons f @ [reason_yellow_symptoms],
                        triage_level := ''YELLOW''\<rparr>)
             else if triage_level f = ''YELLOW'' \<and> reasons f = [] then
               Next (f\<lparr>reasons := reasons f @ [reason_yellow_symptoms]\<rparr>)
             else Next f)
          else Next f)"

text \<open>Lines 82-86.\<close>

definition default_stmt :: "frame \<Rightarrow> outcome" where
  "default_stmt f =
     (if reasons f = [] then
        Next (f\<lparr>reasons := reasons f @ [reason_default], triage_level := ''GREEN''\<rparr>)
      else if triage_level f = ''GREEN'' \<and> reasons f = [] then
        Next (f\<lparr>reasons := reasons f @ [reason_minor]\<rparr>)
      else Next f)"

text \<open>
  A block of statements; running off its end reaches line 89,
  \<^verbatim>\<open>return triage_level, reasons\<close>.
\<close>

fun exec :: "(frame \<Rightarrow> outcome) list \<Rightarrow> frame \<Rightarrow> outcome" where
  "exec [] f = Return f"
| "exec (s # ss) f = (case s f of Next f' \<Rightarrow> exec ss f' | out \<Rightarrow> out)"

definition body :: "(frame \<Rightarrow> outcome) list" where
  "body =
     [red_stmt airway reason_airway,
      red_stmt breathing reason_breathing,
      red_stmt circulation reason_circulation,
      red_stmt altered_sensorium reason_sensorium,
      red_stmt time_sensitive reason_time_sensitive,
      red_stmt other_urgent reason_other_urgent,
      yellow_vitals_stmt,
      yellow_symptoms_stmt,
      default_stmt]"

text \<open>Lines 9-10: \<^verbatim>\<open>reasons = []\<close>, \<^verbatim>\<open>triage_level = "GREEN"\<close>.\<close>

definition entry :: "patient_data \<Rightarrow> frame" where
  "entry d = \<lparr>data = d, triage_level = ''GREEN'', reasons = []\<rparr>"

text \<open>
  One call: the result (the returned pair or the exception) together with the contents of
  the caller's dict after the call.
\<close>

definition call :: "patient_data \<Rightarrow> (error + string \<times> string list) \<times> patient_data" where
  "call d =
     (case exec body (entry d) of
        Raise e f \<Rightarrow> (Inl e, data f)
      | Return f \<Rightarrow> (Inr (triage_level f, reasons f), data f)
      | Next f \<Rightarrow> (Inr (triage_level f, reasons f), data f))"

definition classify_patient_aiims_atp :: "patient_data \<Rightarrow> error + string \<times> string list" where
  "classify_patient_aiims_atp d = fst (call d)"

section \<open>The dictionary built by the form\<close>

text \<open>
  Lines 167-206 with every widget at its default value: SpO2 and temperature are floats
  (their widgets have float bounds), the other vitals and the pain score are ints.
\<close>

definition normal_snapshot :: patient_data where
  "normal_snapshot = map_of
     [(''spo2'', PFloat 98), (''hr'', PInt 80), (''sbp'', PInt 120), (''dbp'', PInt 80),
      (''rr'', PInt 16), (''temp'', PFloat 37), (''avpu'', PStr ''A''), (''pain_score'', PInt 0),
      (''stridor'', PBool False), (''angioedema'', PBool False),
      (''active_seizures'', PBool False), (''talking_incomplete_sentences'', PBool False),
      (''audible_wheeze'', PBool False), (''active_bleeding'', PBool False),
      (''sudden_severe_headache'', PBool False), (''history_syncope'', PBool False),
      (''agitated_violent'', PBool False), (''acute_chest_pain_lt_24hr'', PBool False),
      (''suspected_stroke_lt_24hr'', PBool False), (''acute_sob_lt_12hr'', PBool False),
      (''acute_limb_ischemia'', PBool False), (''abdominal_pain_sudden_onset'', PBool False),
      (''acute_urinary_retention'', PBool False),
      (''pregnant_3rd_trimester_abdominal_bleed'', PBool False),
      (''suspected_poisoning_bite'', PBool False), (''fever_immunocompromised'', PBool False),
      (''vomiting_diarrhea_persistent'', PBool False),
      (''minor_trauma_with_deformity'', PBool False), (''fever_no_red_flags'', PBool False),
      (''urinary_symptoms_moderate'', PBool False), (''older_adult_minor_fall'', PBool False),
      (''pediatric_fever_irritable'', PBool False),
      (''chronic_condition_exacerbation'', PBool False),
      (''minor_cut_abrasion'', PBool False), (''mild_cold_symptoms'', PBool False),
      (''medication_refill_request'', PBool False)]"


section \<open>Well-formed snapshots\<close>

text \<open>
  A well-formed PatientSnapshot has every field present with the documented type and range:
  the 28 flags are booleans, oxygen saturation is a number in 0..100, heart rate, the two
  blood pressures and the respiratory rate are non-negative numbers, temperature is a
  number, the pain score is an integer in 0..10 and consciousness is one of the four
  letters the form extracts from the AVPU choice.
\<close>

definition flag_keys :: "string list" where
  "flag_keys =
     [''stridor'', ''angioedema'', ''active_seizures'', ''talking_incomplete_sentences'',
      ''audible_wheeze'', ''active_bleeding'', ''sudden_severe_headache'',
      ''history_syncope'', ''agitated_violent'', ''acute_chest_pain_lt_24hr'',
      ''suspected_stroke_lt_24hr'', ''acute_sob_lt_12hr'', ''acute_limb_ischemia'',
      ''abdominal_pain_sudden_onset'', ''acute_urinary_retention'',
      ''pregnant_3rd_trimester_abdominal_bleed'', ''suspected_poisoning_bite'',
      ''fever_immunocompromised'', ''vomiting_diarrhea_persistent'',
      ''minor_trauma_with_deformity'', ''fever_no_red_flags'', ''urinary_symptoms_moderate'',
      ''older_adult_minor_fall'', ''pediatric_fever_irritable'',
      ''chronic_condition_exacerbation'', ''minor_cut_abrasion'', ''mild_cold_symptoms'',
      ''medication_refill_request'']"

definition vital_keys :: "string list" where
  "vital_keys = [''spo2'', ''hr'', ''sbp'', ''dbp'', ''rr'', ''temp'', ''pain_score'']"

definition is_flag :: "patient_data \<Rightarrow> string \<Rightarrow> bool" where
  "is_flag d k = (case d k of Some (PBool b) \<Rightarrow> True | _ \<Rightarrow> False)"

definition is_number :: "patient_data \<Rightarrow> string \<Rightarrow> bool" where
  "is_number d k =
     (case d k of Some (PInt i) \<Rightarrow> True | Some (PFloat x) \<Rightarrow> True | _ \<Rightarrow> False)"

text \<open>The value of a flag and of a vital sign, as the caller sees them.\<close>

definition flag :: "patient_data \<Rightarrow> string \<Rightarrow> bool" where
  "flag d k = (d k = Some (PBool True))"

definition num :: "patient_data \<Rightarrow> string \<Rightarrow> rat" where
  "num d k = (case d k of Some (PInt i) \<Rightarrow> of_int i | Some (PFloat x) \<Rightarrow> x | _ \<Rightarrow> 0)"

definition well_formed :: "patient_data \<Rightarrow> bool" where
  "well_formed d \<longleftrightarrow>
     list_all (is_flag d) flag_keys \<and> list_all (is_number d) vital_keys \<and>
     0 \<le> num d ''spo2'' \<and> num d ''spo2'' \<le> 100 \<and>
     0 \<le> num d ''hr'' \<and> 0 \<le> num d ''sbp'' \<and> 0 \<le> num d ''dbp'' \<and> 0 \<le> num d ''rr'' \<and>
     of_int \<lfloor>num d ''pain_score''\<rfloor> = num d ''pain_score'' \<and>
     0 \<le> num d ''pain_score'' \<and> num d ''pain_score'' \<le> 10 \<and>
     d ''avpu'' \<in> set [Some (PStr ''A''), Some (PStr ''V''), Some (PStr ''P''), Some (PStr ''U'')]"

text \<open>
  Heart rate and systolic pressure within the range of a double: the operands of the
  division of line 26 can be converted and their quotient is a finite double.
\<close>

definition double_range :: "patient_data \<Rightarrow> bool" where
  "double_range d \<longleftrightarrow> num d ''hr'' < float_limit \<and> num d ''sbp'' < float_limit"

section \<open>The levels a run passes through\<close>

text \<open>The frames of a run, one per statement boundary, in order.\<close>

fun trace :: "(frame \<Rightarrow> outcome) list \<Rightarrow> frame \<Rightarrow> frame list" where
  "trace [] f = [f]"
| "trace (s # ss) f =
     f # (case s f of Next f' \<Rightarrow> trace ss f' | Return f' \<Rightarrow> [f'] | Raise e f' \<Rightarrow> [f'])"

text \<open>Severity order of the levels: RED above YELLOW above GREEN.\<close>

definition rank :: "string \<Rightarrow> nat" where
  "rank l = (if l = ''RED'' then 2 else if l = ''YELLOW'' then 1 else 0)"

fun frame_of :: "outcome \<Rightarrow> frame" where
  "frame_of (Raise e f) = f"
| "frame_of (Return f) = f"
| "frame_of (Next f) = f"


section \<open>Concrete snapshots\<close>

text \<open>Respiratory rate 21 and pain score 5, everything else at the defaults.\<close>

definition yellow_both_snapshot :: patient_data where
  "yellow_both_snapshot = normal_snapshot(''rr'' \<mapsto> PInt 21, ''pain_score'' \<mapsto> PInt 5)"

text \<open>Active bleeding ticked, everything else at the defaults.\<close>

definition bleeding_snapshot :: patient_data where
  "bleeding_snapshot = normal_snapshot(''active_bleeding'' \<mapsto> PBool True)"

text \<open>Systolic blood pressure 0 with heart rate 80.\<close>

definition no_pressure_snapshot :: patient_data where
  "no_pressure_snapshot = normal_snapshot(''sbp'' \<mapsto> PInt 0)"

text \<open>The three green indicators ticked.\<close>

definition green_ticked_snapshot :: patient_data where
  "green_ticked_snapshot =
     normal_snapshot(''minor_cut_abrasion'' \<mapsto> PBool True,
                     ''mild_cold_symptoms'' \<mapsto> PBool True,
                     ''medication_refill_request'' \<mapsto> PBool True)"

text \<open>A consciousness value outside the four letters.\<close>

definition unknown_avpu_snapshot :: patient_data where
  "unknown_avpu_snapshot = normal_snapshot(''avpu'' \<mapsto> PStr ''X'')"

text \<open>Stridor ticked and the key \<^verbatim>\<open>angioedema\<close> absent from the dict.\<close>

definition stridor_only_snapshot :: patient_data where
  "stridor_only_snapshot = (normal_snapshot(''stridor'' \<mapsto> PBool True))(''angioedema'' := None)"

text \<open>A heart rate no double can hold, everything else at the defaults.\<close>

definition huge_hr_snapshot :: patient_data where
  "huge_hr_snapshot = normal_snapshot(''hr'' \<mapsto> PInt (10 ^ 320))"

text \<open>The same heart rate with consciousness Verbal.\<close>

definition huge_hr_verbal_snapshot :: patient_data where
  "huge_hr_verbal_snapshot =
     normal_snapshot(''hr'' \<mapsto> PInt (10 ^ 320), ''avpu'' \<mapsto> PStr ''V'')"

section \<open>Reading a well-formed snapshot\<close>

text \<open>
  On a well-formed snapshot every read succeeds, so each condition other than that of the
  circulation statement evaluates to a truth value given by the flags and vitals it
  mentions; the circulation condition does so once the shock index has been computed.
\<close>

lemma wf_flag:
  assumes "well_formed d" "k \<in> set flag_keys"
  shows "d k = Some (PBool (flag d k))"
proof -
  from assms have "is_flag d k" by (simp add: well_formed_def list_all_iff)
  then show ?thesis by (auto simp: is_flag_def flag_def split: option.splits pyval.splits)
qed

lemma wf_num:
  assumes "well_formed d" "k \<in> set vital_keys"
  shows "d k = Some (PInt \<lfloor>num d k\<rfloor>) \<and> of_int \<lfloor>num d k\<rfloor> = num d k \<or>
         d k = Some (PFloat (num d k))"
proof -
  from assms have "is_number d k" by (simp add: well_formed_def list_all_iff)
  then show ?thesis by (auto simp: is_number_def num_def split: option.splits pyval.splits)
qed

lemma wf_test: "well_formed d \<Longrightarrow> k \<in> set flag_keys \<Longrightarrow> test d k = Inr (flag d k)"
  by (simp add: test_def getitem_def wf_flag)

lemma wf_compare:
  "well_formed d \<Longrightarrow> k \<in> set vital_keys \<Longrightarrow> compare rel d k c = Inr (rel (num d k) c)"
  using wf_num[of d k] by (auto simp: compare_def getitem_def)

lemma both_Inr: "both (Inr a) (Inr b) = Inr (a \<and> b)"
  by (simp add: both_def)

lemma any_of_Inr:
  "any_of (Inr a # cs) =
     (case any_of cs of Inl e \<Rightarrow> if a then Inr True else Inl e | Inr b \<Rightarrow> Inr (a \<or> b))"
  by (simp split: sum.splits)

lemma airway_wf:
  "well_formed d \<Longrightarrow>
   airway d = Inr (flag d ''stridor'' \<or> flag d ''angioedema'' \<or> flag d ''active_seizures'')"
  by (simp add: airway_def wf_test flag_keys_def any_of_Inr del: any_of.simps(2))

lemma breathing_wf:
  "well_formed d \<Longrightarrow>
   breathing d = Inr (flag d ''talking_incomplete_sentences'' \<or> flag d ''audible_wheeze'' \<or>
                      num d ''rr'' > 22 \<or> num d ''rr'' < 10 \<or> num d ''spo2'' < 90)"
  by (simp add: breathing_def wf_test wf_compare flag_keys_def vital_keys_def any_of_Inr
           del: any_of.simps(2))

lemma circulation_of:
  "well_formed d \<Longrightarrow> shock_index d = Inr si \<Longrightarrow>
   circulation d =
     Inr (num d ''hr'' < 50 \<or> num d ''hr'' > 120 \<or> num d ''sbp'' < 90 \<or> num d ''sbp'' > 220 \<or>
          num d ''dbp'' < 60 \<or> num d ''dbp'' > 110 \<or> si > 1 \<or> flag d ''active_bleeding'')"
  by (simp add: circulation_def wf_test wf_compare flag_keys_def vital_keys_def
        any_of_Inr del: any_of.simps(2))

text \<open>
  The quotient of a non-negative int by a positive int is at most the dividend, so two ints
  a double can hold have a quotient a double can hold.
\<close>

lemma int_quotient_le:
  assumes "0 \<le> i" "0 < j"
  shows "\<bar>(of_int i :: rat) / of_int j\<bar> \<le> of_int i"
proof -
  have "(1::rat) \<le> of_int j"
    using assms(2) by (metis int_one_le_iff_zero_less of_int_1_le_iff)
  then have "(of_int i :: rat) / of_int j \<le> of_int i / 1"
    using assms(1) by (intro divide_left_mono) simp_all
  moreover have "0 \<le> (of_int i :: rat) / of_int j"
    using assms by simp
  ultimately show ?thesis by simp
qed

lemma not_too_large:
  assumes "num_of v = Some a" "0 \<le> a" "a < float_limit"
  shows "\<not> too_large v"
proof (cases "int_of v")
  case None
  then show ?thesis by (simp add: too_large_def)
next
  case (Some i)
  then have "a = of_int i"
    using assms(1) by (cases v) auto
  then show ?thesis
    using assms(2,3) Some by (simp add: too_large_def)
qed

lemma truediv_in_range:
  assumes "num_of h = Some a" "num_of s = Some b" "0 \<le> a" "0 < b"
    "a < float_limit" "b < float_limit"
  shows "truediv h s = Inr (a / b)"
proof -
  have small: "\<not> too_large h" "\<not> too_large s"
    using assms by (simp_all add: not_too_large[of h a] not_too_large[of s b])
  show ?thesis
  proof (cases "\<exists>i j. int_of h = Some i \<and> int_of s = Some j")
    case False
    then show ?thesis
      using assms(1,2,4) small by (cases h; cases s) (simp_all add: truediv_def)
  next
    case True
    then obtain i j where ij: "int_of h = Some i" "int_of s = Some j"
      by blast
    have a: "a = of_int i" and b: "b = of_int j"
      using assms(1,2) ij by (cases h; cases s; auto)+
    have "\<bar>a / b\<bar> \<le> a"
      unfolding a b using assms(3,4) a b by (intro int_quotient_le) simp_all
    then have "\<not> float_limit \<le> \<bar>a / b\<bar>"
      using assms(5) by simp
    moreover have "j \<noteq> 0"
      using assms(4) b by auto
    ultimately show ?thesis
      using assms(1,2) ij by (simp add: truediv_def)
  qed
qed

lemma shock_index_wf:
  assumes "well_formed d" "double_range d"
  shows "shock_index d = Inr (if num d ''sbp'' = 0 then 0 else num d ''hr'' / num d ''sbp'')"
proof -
  obtain s h where s: "d ''sbp'' = Some s" "num_of s = Some (num d ''sbp'')"
    and h: "d ''hr'' = Some h" "num_of h = Some (num d ''hr'')"
    using wf_num[OF assms(1), of "''sbp''"] wf_num[OF assms(1), of "''hr''"]
    by (auto simp: vital_keys_def)
  have nz: "ne_zero s \<longleftrightarrow> num d ''sbp'' \<noteq> 0"
    using s(2) wf_num[OF assms(1), of "''sbp''"] s(1) by (cases s) (auto simp: vital_keys_def)
  have pos: "0 \<le> num d ''hr''" "0 \<le> num d ''sbp''"
    using assms(1) by (simp_all add: well_formed_def)
  show ?thesis
  proof (cases "num d ''sbp'' = 0")
    case True
    then show ?thesis
      using nz by (simp add: shock_index_def getitem_def s(1))
  next
    case False
    then have "truediv h s = Inr (num d ''hr'' / num d ''sbp'')"
      using pos assms(2) by (intro truediv_in_range h s) (simp_all add: double_range_def)
    then show ?thesis
      using nz False by (simp add: shock_index_def getitem_def s(1) h(1))
  qed
qed

lemma circulation_wf:
  assumes "well_formed d" "double_range d"
  shows "circulation d =
     Inr (num d ''hr'' < 50 \<or> num d ''hr'' > 120 \<or> num d ''sbp'' < 90 \<or> num d ''sbp'' > 220 \<or>
          num d ''dbp'' < 60 \<or> num d ''dbp'' > 110 \<or>
          (if num d ''sbp'' = 0 then 0 else num d ''hr'' / num d ''sbp'') > 1 \<or>
          flag d ''active_bleeding'')"
  by (rule circulation_of[OF assms(1) shock_index_wf[OF assms]])

lemma wf_avpu:
  "well_formed d \<Longrightarrow> d ''avpu'' \<in> set [Some (PStr ''A''), Some (PStr ''V''), Some (PStr ''P''), Some (PStr ''U'')]"
  by (simp add: well_formed_def)

lemma altered_sensorium_wf:
  "well_formed d \<Longrightarrow> altered_sensorium d = Inr (d ''avpu'' \<noteq> Some (PStr ''A''))"
  using wf_avpu[of d] by (auto simp: altered_sensorium_def getitem_def)

lemma time_sensitive_wf:
  "well_formed d \<Longrightarrow>
   time_sensitive d =
     Inr (flag d ''acute_chest_pain_lt_24hr'' \<or> flag d ''suspected_stroke_lt_24hr'' \<or>
          flag d ''acute_sob_lt_12hr'' \<or> num d ''pain_score'' > 7 \<or>
          flag d ''sudden_severe_headache'' \<or> flag d ''acute_limb_ischemia'' \<or>
          flag d ''history_syncope'' \<or> flag d ''abdominal_pain_sudden_onset'' \<or>
          flag d ''fever_immunocompromised'' \<or> flag d ''acute_urinary_retention'' \<or>
          num d ''temp'' > 40 \<or> num d ''temp'' < 35)"
  by (simp add: time_sensitive_def wf_test wf_compare flag_keys_def vital_keys_def any_of_Inr
           del: any_of.simps(2))

lemma other_urgent_wf:
  "well_formed d \<Longrightarrow>
   other_urgent d =
     Inr (flag d ''agitated_violent'' \<or> flag d ''suspected_poisoning_bite'' \<or>
          flag d ''pregnant_3rd_trimester_abdominal_bleed'')"
  by (simp add: other_urgent_def wf_test flag_keys_def any_of_Inr del: any_of.simps(2))

lemma yellow_vitals_wf:
  "well_formed d \<Longrightarrow>
   yellow_vitals d =
     Inr (num d ''rr'' \<ge> 20 \<and> num d ''rr'' \<le> 22 \<or> num d ''hr'' \<ge> 100 \<and> num d ''hr'' \<le> 120 \<or>
          num d ''sbp'' \<ge> 180 \<and> num d ''sbp'' \<le> 220 \<or>
          num d ''dbp'' \<ge> 100 \<and> num d ''dbp'' \<le> 110 \<or>
          num d ''temp'' \<ge> 38 \<and> num d ''temp'' \<le> 40)"
  by (simp add: yellow_vitals_def wf_compare vital_keys_def both_Inr any_of_Inr
           del: any_of.simps(2))

lemma yellow_symptoms_wf:
  "well_formed d \<Longrightarrow>
   yellow_symptoms d =
     Inr (num d ''pain_score'' \<ge> 4 \<and> num d ''pain_score'' \<le> 7 \<or>
          flag d ''vomiting_diarrhea_persistent'' \<or> flag d ''minor_trauma_with_deformity'' \<or>
          flag d ''fever_no_red_flags'' \<or> flag d ''urinary_symptoms_moderate'' \<or>
          flag d ''older_adult_minor_fall'' \<or> flag d ''pediatric_fever_irritable'' \<or>
          flag d ''chronic_condition_exacerbation'')"
  by (simp add: yellow_symptoms_def wf_test wf_compare flag_keys_def vital_keys_def both_Inr
        any_of_Inr del: any_of.simps(2))

text \<open>The function as one nested conditional over the eight conditions.\<close>

lemma classify_cases:
  "classify_patient_aiims_atp d =
     (case airway d of Inl e \<Rightarrow> Inl e | Inr b1 \<Rightarrow>
      if b1 then Inr (''RED'', [reason_airway]) else
     (case breathing d of Inl e \<Rightarrow> Inl e | Inr b2 \<Rightarrow>
      if b2 then Inr (''RED'', [reason_breathing]) else
     (case circulation d of Inl e \<Rightarrow> Inl e | Inr b3 \<Rightarrow>
      if b3 then Inr (''RED'', [reason_circulation]) else
     (case altered_sensorium d of Inl e \<Rightarrow> Inl e | Inr b4 \<Rightarrow>
      if b4 then Inr (''RED'', [reason_sensorium]) else
     (case time_sensitive d of Inl e \<Rightarrow> Inl e | Inr b5 \<Rightarrow>
      if b5 then Inr (''RED'', [reason_time_sensitive]) else
     (case other_urgent d of Inl e \<Rightarrow> Inl e | Inr b6 \<Rightarrow>
      if b6 then Inr (''RED'', [reason_other_urgent]) else
     (case yellow_vitals d of Inl e \<Rightarrow> Inl e | Inr yv \<Rightarrow>
     (case yellow_symptoms d of Inl e \<Rightarrow> Inl e | Inr ys \<Rightarrow>
        Inr (if yv then (''YELLOW'', [reason_yellow_vitals])
             else if ys then (''YELLOW'', [reason_yellow_symptoms])
             else (''GREEN'', [reason_default]))))))))))"
  by (simp add: classify_patient_aiims_atp_def call_def body_def entry_def red_stmt_def
        yellow_vitals_stmt_def yellow_symptoms_stmt_def default_stmt_def
      split: sum.splits)

lemmas wf_conds = airway_wf breathing_wf altered_sensorium_wf time_sensitive_wf
  other_urgent_wf yellow_vitals_wf yellow_symptoms_wf

lemma conds_Inr:
  assumes "well_formed d" "double_range d"
  obtains b1 b2 b3 b4 b5 b6 b7 b8 where
    "airway d = Inr b1" "breathing d = Inr b2" "circulation d = Inr b3"
    "altered_sensorium d = Inr b4" "time_sensitive d = Inr b5" "other_urgent d = Inr b6"
    "yellow_vitals d = Inr b7" "yellow_symptoms d = Inr b8"
  using wf_conds[OF assms(1)] circulation_wf[OF assms] by blast

section \<open>The default snapshot\<close>

lemma normal_lookup:
  "normal_snapshot ''spo2'' = Some (PFloat 98)"
  "normal_snapshot ''hr'' = Some (PInt 80)"
  "normal_snapshot ''sbp'' = Some (PInt 120)"
  "normal_snapshot ''dbp'' = Some (PInt 80)"
  "normal_snapshot ''rr'' = Some (PInt 16)"
  "normal_snapshot ''temp'' = Some (PFloat 37)"
  "normal_snapshot ''avpu'' = Some (PStr ''A'')"
  "normal_snapshot ''pain_score'' = Some (PInt 0)"
  "normal_snapshot ''stridor'' = Some (PBool False)"
  "normal_snapshot ''angioedema'' = Some (PBool False)"
  "normal_snapshot ''active_seizures'' = Some (PBool False)"
  "normal_snapshot ''talking_incomplete_sentences'' = Some (PBool False)"
  "normal_snapshot ''audible_wheeze'' = Some (PBool False)"
  "normal_snapshot ''active_bleeding'' = Some (PBool False)"
  "normal_snapshot ''sudden_severe_headache'' = Some (PBool False)"
  "normal_snapshot ''history_syncope'' = Some (PBool False)"
  "normal_snapshot ''agitated_violent'' = Some (PBool False)"
  "normal_snapshot ''acute_chest_pain_lt_24hr'' = Some (PBool False)"
  "normal_snapshot ''suspected_stroke_lt_24hr'' = Some (PBool False)"
  "normal_snapshot ''acute_sob_lt_12hr'' = Some (PBool False)"
  "normal_snapshot ''acute_limb_ischemia'' = Some (PBool False)"
  "normal_snapshot ''abdominal_pain_sudden_onset'' = Some (PBool False)"
  "normal_snapshot ''acute_urinary_retention'' = Some (PBool False)"
  "normal_snapshot ''pregnant_3rd_trimester_abdominal_bleed'' = Some (PBool False)"
  "normal_snapshot ''suspected_poisoning_bite'' = Some (PBool False)"
  "normal_snapshot ''fever_immunocompromised'' = Some (PBool False)"
  "normal_snapshot ''vomiting_diarrhea_persistent'' = Some (PBool False)"
  "normal_snapshot ''minor_trauma_with_deformity'' = Some (PBool False)"
  "normal_snapshot ''fever_no_red_flags'' = Some (PBool False)"
  "normal_snapshot ''urinary_symptoms_moderate'' = Some (PBool False)"
  "normal_snapshot ''older_adult_minor_fall'' = Some (PBool False)"
  "normal_snapshot ''pediatric_fever_irritable'' = Some (PBool False)"
  "normal_snapshot ''chronic_condition_exacerbation'' = Some (PBool False)"
  "normal_snapshot ''minor_cut_abrasion'' = Some (PBool False)"
  "normal_snapshot ''mild_cold_symptoms'' = Some (PBool False)"
  "normal_snapshot ''medication_refill_request'' = Some (PBool False)"
  by (simp_all add: normal_snapshot_def)

lemma wf_normal: "well_formed normal_snapshot"
  by (simp add: well_formed_def flag_keys_def vital_keys_def is_flag_def is_number_def num_def
        normal_lookup)

lemma dr_normal: "double_range normal_snapshot"
  by (simp add: double_range_def num_def normal_lookup float_limit_def)

lemma normal_conds:
  "airway normal_snapshot = Inr False" "breathing normal_snapshot = Inr False"
  "circulation normal_snapshot = Inr False" "altered_sensorium normal_snapshot = Inr False"
  "time_sensitive normal_snapshot = Inr False" "other_urgent normal_snapshot = Inr False"
  "yellow_vitals normal_snapshot = Inr False" "yellow_symptoms normal_snapshot = Inr False"
  by (simp_all add: wf_conds[OF wf_normal] circulation_wf[OF wf_normal dr_normal]
        flag_def num_def normal_lookup)

text \<open>
  C8. The snapshot with SpO2 98, heart rate 80, blood pressure 120/80, respiratory rate 16,
  temperature 37.0, pain score 0, consciousness Alert and every flag false is classified
  GREEN with exactly one reason, the no-criteria-met reason.
\<close>

theorem default_green:
  "classify_patient_aiims_atp normal_snapshot =
     Inr (''GREEN'', [''No specific red or yellow criteria met. Appears non-urgent.''])"
  by (simp add: classify_cases normal_conds reason_default_def)

section \<open>Yellow accumulation\<close>

lemma wf_yellow_both: "well_formed yellow_both_snapshot"
  by (simp add: well_formed_def flag_keys_def vital_keys_def is_flag_def is_number_def num_def
        normal_lookup yellow_both_snapshot_def)

lemma dr_yellow_both: "double_range yellow_both_snapshot"
  by (simp add: double_range_def num_def normal_lookup float_limit_def yellow_both_snapshot_def)

lemma yellow_both_conds:
  "airway yellow_both_snapshot = Inr False" "breathing yellow_both_snapshot = Inr False"
  "circulation yellow_both_snapshot = Inr False"
  "altered_sensorium yellow_both_snapshot = Inr False"
  "time_sensitive yellow_both_snapshot = Inr False"
  "other_urgent yellow_both_snapshot = Inr False"
  "yellow_vitals yellow_both_snapshot = Inr True"
  "yellow_symptoms yellow_both_snapshot = Inr True"
  by (simp_all only: wf_conds[OF wf_yellow_both]
        circulation_wf[OF wf_yellow_both dr_yellow_both])
     (simp_all add: flag_def num_def normal_lookup yellow_both_snapshot_def)

text \<open>
  C1 (the code departs from the claim). The claim: with no RED criterion, respiratory rate 21
  and pain score 5 the result is YELLOW with two reasons, the yellow-vitals reason followed
  by the semi-urgent reason. The branch of line 77 that is meant to add the second reason
  is guarded by \<^verbatim>\<open>not reasons\<close>, which is false once the yellow-vitals reason has been
  appended: on the well-formed snapshot below no RED condition holds, both yellow
  conditions hold, and the function returns YELLOW with the yellow-vitals reason alone.
\<close>

theorem yellow_second_reason_dropped:
  "well_formed yellow_both_snapshot \<and>
   yellow_both_snapshot ''rr'' = Some (PInt 21) \<and>
   yellow_both_snapshot ''pain_score'' = Some (PInt 5) \<and>
   airway yellow_both_snapshot = Inr False \<and> breathing yellow_both_snapshot = Inr False \<and>
   circulation yellow_both_snapshot = Inr False \<and>
   altered_sensorium yellow_both_snapshot = Inr False \<and>
   time_sensitive yellow_both_snapshot = Inr False \<and>
   other_urgent yellow_both_snapshot = Inr False \<and>
   yellow_vitals yellow_both_snapshot = Inr True \<and>
   yellow_symptoms yellow_both_snapshot = Inr True \<and>
   classify_patient_aiims_atp yellow_both_snapshot = Inr (''YELLOW'', [reason_yellow_vitals])"
  by (simp add: classify_cases yellow_both_conds wf_yellow_both)
     (simp add: yellow_both_snapshot_def)

text \<open>
  The same holds on every snapshot: when both yellow conditions hold and no RED one does,
  only the yellow-vitals reason is returned.
\<close>

lemma yellow_both_one_reason:
  assumes "airway d = Inr False" "breathing d = Inr False" "circulation d = Inr False"
    "altered_sensorium d = Inr False" "time_sensitive d = Inr False"
    "other_urgent d = Inr False" "yellow_vitals d = Inr True" "yellow_symptoms d = Inr True"
  shows "classify_patient_aiims_atp d = Inr (''YELLOW'', [reason_yellow_vitals])"
  unfolding classify_cases assms by simp

section \<open>A heart rate no double can hold\<close>

text \<open>
  An int of magnitude \<open>float_limit\<close> or more satisfies the documented range of the heart
  rate (non-negative), but line 26 divides it by the systolic pressure before any range
  test, and the division raises OverflowError.
\<close>

lemma huge_hr_lookup:
  "huge_hr_snapshot ''hr'' = Some (PInt (10 ^ 320))"
  "huge_hr_snapshot ''sbp'' = Some (PInt 120)"
  "huge_hr_verbal_snapshot ''hr'' = Some (PInt (10 ^ 320))"
  "huge_hr_verbal_snapshot ''sbp'' = Some (PInt 120)"
  "huge_hr_verbal_snapshot ''avpu'' = Some (PStr ''V'')"
  by (simp_all add: huge_hr_snapshot_def huge_hr_verbal_snapshot_def normal_lookup)

lemma wf_huge_hr: "well_formed huge_hr_snapshot" "well_formed huge_hr_verbal_snapshot"
  by (simp_all add: well_formed_def flag_keys_def vital_keys_def is_flag_def is_number_def
        num_def normal_lookup huge_hr_snapshot_def huge_hr_verbal_snapshot_def)

lemma huge_quotient: "truediv (PInt (10 ^ 320)) (PInt 120) = Inl OverflowError"
  by (simp add: truediv_def float_limit_def)

lemma huge_hr_shock_index:
  "shock_index huge_hr_snapshot = Inl OverflowError"
  "shock_index huge_hr_verbal_snapshot = Inl OverflowError"
proof -
  have nz: "ne_zero (PInt 120)"
    by simp
  show "shock_index huge_hr_snapshot = Inl OverflowError"
    "shock_index huge_hr_verbal_snapshot = Inl OverflowError"
    unfolding shock_index_def getitem_def huge_hr_lookup
    by (simp_all only: option.case sum.case nz if_True huge_quotient)
qed

lemma huge_hr_conds:
  "airway huge_hr_snapshot = Inr False" "breathing huge_hr_snapshot = Inr False"
  "circulation huge_hr_snapshot = Inl OverflowError"
  "airway huge_hr_verbal_snapshot = Inr False" "breathing huge_hr_verbal_snapshot = Inr False"
  "circulation huge_hr_verbal_snapshot = Inl OverflowError"
  "altered_sensorium huge_hr_verbal_snapshot = Inr True"
proof -
  show "circulation huge_hr_snapshot = Inl OverflowError"
    "circulation huge_hr_verbal_snapshot = Inl OverflowError"
    by (simp_all add: circulation_def huge_hr_shock_index)
  show "airway huge_hr_snapshot = Inr False" "breathing huge_hr_snapshot = Inr False"
    by (simp_all only: wf_conds[OF wf_huge_hr(1)])
       (simp_all add: flag_def num_def normal_lookup huge_hr_snapshot_def)
  show "airway huge_hr_verbal_snapshot = Inr False"
    "breathing huge_hr_verbal_snapshot = Inr False"
    "altered_sensorium huge_hr_verbal_snapshot = Inr True"
    by (simp_all only: wf_conds[OF wf_huge_hr(2)])
       (simp_all add: flag_def num_def normal_lookup huge_hr_verbal_snapshot_def)
qed

section \<open>The RED statements return at once\<close>

lemma red_run:
  assumes "airway d = Inr b1" "breathing d = Inr b2" "circulation d = Inr b3"
    "altered_sensorium d = Inr b4" "time_sensitive d = Inr b5" "other_urgent d = Inr b6"
    and "b1 \<or> b2 \<or> b3 \<or> b4 \<or> b5 \<or> b6"
  shows "trace body (entry d) =
      (if b1 then [entry d, \<lparr>data = d, triage_level = ''RED'', reasons = [reason_airway]\<rparr>]
       else if b2 then
         [entry d, entry d, \<lparr>data = d, triage_level = ''RED'', reasons = [reason_breathing]\<rparr>]
       else if b3 then
         [entry d, entry d, entry d,
          \<lparr>data = d, triage_level = ''RED'', reasons = [reason_circulation]\<rparr>]
       else if b4 then
         [entry d, entry d, entry d, entry d,
          \<lparr>data = d, triage_level = ''RED'', reasons = [reason_sensorium]\<rparr>]
       else if b5 then
         [entry d, entry d, entry d, entry d, entry d,
          \<lparr>data = d, triage_level = ''RED'', reasons = [reason_time_sensitive]\<rparr>]
       else
         [entry d, entry d, entry d, entry d, entry d, entry d,
          \<lparr>data = d, triage_level = ''RED'', reasons = [reason_other_urgent]\<rparr>])"
  using assms by (auto simp: body_def red_stmt_def entry_def)

lemma red_level:
  assumes "well_formed d" "double_range d"
    and "airway d = Inr True \<or> breathing d = Inr True \<or> circulation d = Inr True \<or>
         altered_sensorium d = Inr True \<or> time_sensitive d = Inr True \<or>
         other_urgent d = Inr True"
  shows "\<exists>reason. classify_patient_aiims_atp d = Inr (''RED'', [reason])"
proof -
  obtain b1 b2 b3 b4 b5 b6 b7 b8 where
    c: "airway d = Inr b1" "breathing d = Inr b2" "circulation d = Inr b3"
    "altered_sensorium d = Inr b4" "time_sensitive d = Inr b5" "other_urgent d = Inr b6"
    "yellow_vitals d = Inr b7" "yellow_symptoms d = Inr b8"
    using conds_Inr[OF assms(1,2)] by blast
  have "b1 \<or> b2 \<or> b3 \<or> b4 \<or> b5 \<or> b6"
    using assms(3) c by simp
  then show ?thesis
    unfolding classify_cases c by auto
qed

text \<open>
  C2 as stated fails. The snapshot with heart rate \<open>10^320\<close> and consciousness Verbal has
  every field in its documented range; the consciousness rule applies to it (and so does
  the heart-rate clause of the circulation rule), yet the function returns no verdict:
  line 26 raises OverflowError.
\<close>

theorem red_rule_without_verdict:
  "well_formed huge_hr_verbal_snapshot \<and>
   huge_hr_verbal_snapshot ''hr'' = Some (PInt (10 ^ 320)) \<and>
   compare (>) huge_hr_verbal_snapshot ''hr'' 120 = Inr True \<and>
   altered_sensorium huge_hr_verbal_snapshot = Inr True \<and>
   classify_patient_aiims_atp huge_hr_verbal_snapshot = Inl OverflowError"
  by (simp add: classify_cases huge_hr_conds wf_huge_hr huge_hr_lookup compare_def getitem_def)

text \<open>
  C2 as amended. On a well-formed snapshot whose heart rate and systolic pressure a double
  can hold, if a condition of the airway, breathing, circulation, consciousness,
  time-sensitive or other-urgent statement holds, the function returns RED with exactly one
  reason, that of the first statement (in this order) whose condition holds. The run stops
  there: its trace is the entry frame once per statement executed, followed by the frame
  returned, so no later statement is executed.
\<close>

theorem red_short_circuit:
  assumes "well_formed d" "double_range d"
    and "airway d = Inr True \<or> breathing d = Inr True \<or> circulation d = Inr True \<or>
         altered_sensorium d = Inr True \<or> time_sensitive d = Inr True \<or>
         other_urgent d = Inr True"
  shows "let (n, reason) =
               (if airway d = Inr True then (1, reason_airway)
                else if breathing d = Inr True then (2, reason_breathing)
                else if circulation d = Inr True then (3, reason_circulation)
                else if altered_sensorium d = Inr True then (4, reason_sensorium)
                else if time_sensitive d = Inr True then (5, reason_time_sensitive)
                else (6, reason_other_urgent))
         in classify_patient_aiims_atp d = Inr (''RED'', [reason]) \<and>
            trace body (entry d) =
              replicate n (entry d) @
              [\<lparr>data = d, triage_level = ''RED'', reasons = [reason]\<rparr>]"
proof -
  obtain b1 b2 b3 b4 b5 b6 b7 b8 where
    c: "airway d = Inr b1" "breathing d = Inr b2" "circulation d = Inr b3"
    "altered_sensorium d = Inr b4" "time_sensitive d = Inr b5" "other_urgent d = Inr b6"
    and y: "yellow_vitals d = Inr b7" "yellow_symptoms d = Inr b8"
    using conds_Inr[OF assms(1,2)] by blast
  have any: "b1 \<or> b2 \<or> b3 \<or> b4 \<or> b5 \<or> b6"
    using assms(3) c by simp
  have cl: "classify_patient_aiims_atp d =
      Inr (''RED'', [if b1 then reason_airway else if b2 then reason_breathing
                     else if b3 then reason_circulation else if b4 then reason_sensorium
                     else if b5 then reason_time_sensitive else reason_other_urgent])"
    using any unfolding classify_cases c by auto
  show ?thesis
    unfolding red_run[OF c any] cl c using any by (simp add: numeral_eq_Suc)
qed

lemma wf_bleeding: "well_formed bleeding_snapshot"
  by (simp add: well_formed_def flag_keys_def vital_keys_def is_flag_def is_number_def num_def
        normal_lookup bleeding_snapshot_def)

lemma dr_bleeding: "double_range bleeding_snapshot"
  by (simp add: double_range_def num_def normal_lookup float_limit_def bleeding_snapshot_def)

lemma bleeding_conds:
  "airway bleeding_snapshot = Inr False" "breathing bleeding_snapshot = Inr False"
  "circulation bleeding_snapshot = Inr True"
  by (simp_all only: wf_conds[OF wf_bleeding] circulation_wf[OF wf_bleeding dr_bleeding])
     (simp_all add: flag_def num_def normal_lookup bleeding_snapshot_def)

theorem red_short_circuit_witness:
  "well_formed bleeding_snapshot \<and> double_range bleeding_snapshot \<and>
   (airway bleeding_snapshot = Inr True \<or> breathing bleeding_snapshot = Inr True \<or>
    circulation bleeding_snapshot = Inr True \<or>
    altered_sensorium bleeding_snapshot = Inr True \<or>
    time_sensitive bleeding_snapshot = Inr True \<or>
    other_urgent bleeding_snapshot = Inr True) \<and>
   classify_patient_aiims_atp bleeding_snapshot = Inr (''RED'', [reason_circulation]) \<and>
   trace body (entry bleeding_snapshot) =
     [entry bleeding_snapshot, entry bleeding_snapshot, entry bleeding_snapshot,
      \<lparr>data = bleeding_snapshot, triage_level = ''RED'', reasons = [reason_circulation]\<rparr>]"
  using red_short_circuit[OF wf_bleeding dr_bleeding] wf_bleeding dr_bleeding
  by (simp add: bleeding_conds numeral_eq_Suc)

section \<open>Totality\<close>

text \<open>
  C3 as stated fails. The default snapshot with heart rate \<open>10^320\<close> has every field
  present and in its documented range, and the function returns neither a level nor a
  reason for it: line 26 raises OverflowError.
\<close>

theorem well_formed_without_verdict:
  "well_formed huge_hr_snapshot \<and>
   huge_hr_snapshot ''hr'' = Some (PInt (10 ^ 320)) \<and>
   classify_patient_aiims_atp huge_hr_snapshot = Inl OverflowError"
  by (simp add: classify_cases huge_hr_conds wf_huge_hr huge_hr_lookup)

text \<open>
  C3 as amended. On a well-formed snapshot whose heart rate and systolic pressure a double
  can hold, the function returns a pair of a level, which is one of RED, YELLOW and GREEN,
  and a non-empty list of reasons; when no RED and no YELLOW condition holds, the level is
  GREEN and the list is the no-criteria-met reason alone.
\<close>

theorem classify_total:
  assumes "well_formed d" "double_range d"
  shows "\<exists>level rs. classify_patient_aiims_atp d = Inr (level, rs) \<and>
           level \<in> {''RED'', ''YELLOW'', ''GREEN''} \<and> rs \<noteq> [] \<and>
           (airway d = Inr False \<and> breathing d = Inr False \<and> circulation d = Inr False \<and>
            altered_sensorium d = Inr False \<and> time_sensitive d = Inr False \<and>
            other_urgent d = Inr False \<and> yellow_vitals d = Inr False \<and>
            yellow_symptoms d = Inr False \<longrightarrow>
            level = ''GREEN'' \<and> rs = [reason_default])"
proof -
  obtain b1 b2 b3 b4 b5 b6 b7 b8 where
    c: "airway d = Inr b1" "breathing d = Inr b2" "circulation d = Inr b3"
    "altered_sensorium d = Inr b4" "time_sensitive d = Inr b5" "other_urgent d = Inr b6"
    "yellow_vitals d = Inr b7" "yellow_symptoms d = Inr b8"
    using conds_Inr[OF assms] by blast
  show ?thesis
    unfolding classify_cases c by auto
qed

theorem classify_total_witness:
  "well_formed normal_snapshot \<and> double_range normal_snapshot \<and>
   airway normal_snapshot = Inr False \<and> breathing normal_snapshot = Inr False \<and>
   circulation normal_snapshot = Inr False \<and> altered_sensorium normal_snapshot = Inr False \<and>
   time_sensitive normal_snapshot = Inr False \<and> other_urgent normal_snapshot = Inr False \<and>
   yellow_vitals normal_snapshot = Inr False \<and> yellow_symptoms normal_snapshot = Inr False \<and>
   (\<exists>level rs. classify_patient_aiims_atp normal_snapshot = Inr (level, rs) \<and>
      level \<in> {''RED'', ''YELLOW'', ''GREEN''} \<and> rs \<noteq> [] \<and>
      level = ''GREEN'' \<and> rs = [reason_default])"
  using classify_total[OF wf_normal dr_normal] wf_normal dr_normal
  by (simp add: normal_conds)

section \<open>The shock index\<close>

lemma test_no_zde: "test d k \<noteq> Inl ZeroDivisionError"
  by (simp add: test_def getitem_def split: option.splits)

lemma compare_no_zde: "compare rel d k c \<noteq> Inl ZeroDivisionError"
  by (simp add: compare_def getitem_def split: option.splits)

lemma both_no_zde:
  "a \<noteq> Inl ZeroDivisionError \<Longrightarrow> b \<noteq> Inl ZeroDivisionError \<Longrightarrow>
   both a b \<noteq> Inl ZeroDivisionError"
  by (cases a) (auto simp: both_def)

lemma any_of_no_zde:
  "list_all (\<lambda>c. c \<noteq> Inl ZeroDivisionError) cs \<Longrightarrow> any_of cs \<noteq> Inl ZeroDivisionError"
  by (induction cs) (auto split: sum.splits)

text \<open>The divisor has passed the test \<^verbatim>\<open>!= 0\<close> when the quotient is taken.\<close>

lemma truediv_no_zde: "ne_zero s \<Longrightarrow> truediv h s \<noteq> Inl ZeroDivisionError"
  by (cases s; cases h) (simp_all add: truediv_def)

lemma shock_index_zero:
  assumes "well_formed d" "num d ''sbp'' = 0"
  shows "shock_index d = Inr 0"
proof -
  have "d ''sbp'' = Some (PInt 0) \<or> d ''sbp'' = Some (PFloat 0)"
    using wf_num[OF assms(1), of "''sbp''"] assms(2) by (simp add: vital_keys_def)
  then show ?thesis
    by (auto simp: shock_index_def getitem_def)
qed

lemma shock_index_no_zde: "shock_index d \<noteq> Inl ZeroDivisionError"
  by (auto simp: shock_index_def getitem_def truediv_no_zde split: option.splits)

lemma conds_no_zde:
  "airway d \<noteq> Inl ZeroDivisionError" "breathing d \<noteq> Inl ZeroDivisionError"
  "circulation d \<noteq> Inl ZeroDivisionError" "altered_sensorium d \<noteq> Inl ZeroDivisionError"
  "time_sensitive d \<noteq> Inl ZeroDivisionError" "other_urgent d \<noteq> Inl ZeroDivisionError"
  "yellow_vitals d \<noteq> Inl ZeroDivisionError" "yellow_symptoms d \<noteq> Inl ZeroDivisionError"
proof -
  show "circulation d \<noteq> Inl ZeroDivisionError"
    using shock_index_no_zde[of d]
    by (cases "shock_index d")
       (simp_all add: circulation_def any_of_no_zde test_no_zde compare_no_zde
          del: any_of.simps)
  show "altered_sensorium d \<noteq> Inl ZeroDivisionError"
    by (simp add: altered_sensorium_def getitem_def split: option.splits)
qed (simp_all add: airway_def breathing_def time_sensitive_def other_urgent_def
       yellow_vitals_def yellow_symptoms_def any_of_no_zde both_no_zde test_no_zde
       compare_no_zde del: any_of.simps)

lemma classify_no_zde: "classify_patient_aiims_atp d \<noteq> Inl ZeroDivisionError"
  using conds_no_zde[of d] unfolding classify_cases
  by (auto split: sum.splits)

text \<open>
  C4. On a well-formed snapshot with systolic blood pressure 0, whatever the heart rate,
  the shock index is 0, so the clause \<^verbatim>\<open>shock_index > 1.0\<close> is false; the function returns
  a verdict and raises no division error.
\<close>

theorem shock_index_zero_guard:
  assumes "well_formed d" and "num d ''sbp'' = 0"
  shows "shock_index d = Inr 0 \<and>
         (case shock_index d of Inl e \<Rightarrow> False | Inr si \<Rightarrow> \<not> si > 1) \<and>
         (\<exists>v. classify_patient_aiims_atp d = Inr v) \<and>
         classify_patient_aiims_atp d \<noteq> Inl ZeroDivisionError"
proof -
  note si = shock_index_zero[OF assms]
  have circ: "circulation d = Inr True"
    unfolding circulation_of[OF assms(1) si] using assms(2) by simp
  obtain b1 b2 where c: "airway d = Inr b1" "breathing d = Inr b2"
    using wf_conds[OF assms(1)] by blast
  have "\<exists>v. classify_patient_aiims_atp d = Inr v"
    unfolding classify_cases c circ by simp
  then show ?thesis
    using si classify_no_zde[of d] by simp
qed

lemma wf_no_pressure: "well_formed no_pressure_snapshot"
  by (simp add: well_formed_def flag_keys_def vital_keys_def is_flag_def is_number_def num_def
        normal_lookup no_pressure_snapshot_def)

theorem shock_index_zero_guard_witness:
  "well_formed no_pressure_snapshot \<and> num no_pressure_snapshot ''sbp'' = 0 \<and>
   num no_pressure_snapshot ''hr'' = 80 \<and>
   shock_index no_pressure_snapshot = Inr 0 \<and>
   (\<exists>v. classify_patient_aiims_atp no_pressure_snapshot = Inr v) \<and>
   classify_patient_aiims_atp no_pressure_snapshot \<noteq> Inl ZeroDivisionError"
proof -
  have n: "num no_pressure_snapshot ''sbp'' = 0" "num no_pressure_snapshot ''hr'' = 80"
    by (simp_all add: num_def no_pressure_snapshot_def normal_lookup)
  show ?thesis
    using shock_index_zero_guard[OF wf_no_pressure n(1)] wf_no_pressure n by simp
qed

section \<open>Band boundaries\<close>

lemma wf_upd_rr: "well_formed d \<Longrightarrow> 0 \<le> i \<Longrightarrow> well_formed (d(''rr'' \<mapsto> PInt i))"
  by (simp add: well_formed_def flag_keys_def vital_keys_def is_flag_def is_number_def num_def)

lemma wf_upd_temp: "well_formed d \<Longrightarrow> well_formed (d(''temp'' \<mapsto> PFloat x))"
  by (simp add: well_formed_def flag_keys_def vital_keys_def is_flag_def is_number_def num_def)

lemma dr_upd:
  "double_range (d(''rr'' \<mapsto> v)) = double_range d"
  "double_range (d(''temp'' \<mapsto> v)) = double_range d"
  by (simp_all add: double_range_def num_def)

text \<open>The airway condition reads neither the respiratory rate nor the temperature.\<close>

lemma airway_upd:
  "airway (d(''rr'' \<mapsto> v)) = airway d" "airway (d(''temp'' \<mapsto> v)) = airway d"
  by (simp_all add: airway_def test_def getitem_def)

lemma yellow_after_no_red:
  assumes "well_formed d" "yellow_vitals d = Inr True"
    and "airway d = Inr False" "breathing d = Inr False" "circulation d = Inr False"
    "altered_sensorium d = Inr False" "time_sensitive d = Inr False"
    "other_urgent d = Inr False"
  shows "classify_patient_aiims_atp d = Inr (''YELLOW'', [reason_yellow_vitals])"
proof -
  obtain b where "yellow_symptoms d = Inr b"
    using wf_conds[OF assms(1)] by blast
  then show ?thesis
    unfolding classify_cases assms(2-) by simp
qed

text \<open>
  C5. Take a well-formed snapshot and set one vital sign. With respiratory rate exactly 22
  the breathing condition holds only through its other clauses (the two flags, SpO2 below
  90) and the yellow-vitals condition holds, so that the result is YELLOW with the
  yellow-vitals reason whenever no RED condition holds; with respiratory rate 23 the
  breathing condition holds and the result is RED, with the breathing reason unless the
  airway statement has returned first. With temperature exactly 40.0 the time-sensitive
  condition holds only through its other clauses and the yellow-vitals condition holds, so
  that the result is YELLOW with the yellow-vitals reason whenever no RED condition holds;
  with temperature 40.1 (the rational 401/10; the double written \<^verbatim>\<open>40.1\<close> exceeds 40 as
  well) the time-sensitive condition holds, the result is RED with the time-sensitive
  reason whenever the four earlier conditions are false, and it is RED in any case when
  heart rate and systolic pressure are in the range of a double.
\<close>

theorem band_boundaries:
  assumes "well_formed d"
  shows "breathing (d(''rr'' \<mapsto> PInt 22)) =
           Inr (flag d ''talking_incomplete_sentences'' \<or> flag d ''audible_wheeze'' \<or>
                num d ''spo2'' < 90) \<and>
         yellow_vitals (d(''rr'' \<mapsto> PInt 22)) = Inr True \<and>
         (airway (d(''rr'' \<mapsto> PInt 22)) = Inr False \<and>
          breathing (d(''rr'' \<mapsto> PInt 22)) = Inr False \<and>
          circulation (d(''rr'' \<mapsto> PInt 22)) = Inr False \<and>
          altered_sensorium (d(''rr'' \<mapsto> PInt 22)) = Inr False \<and>
          time_sensitive (d(''rr'' \<mapsto> PInt 22)) = Inr False \<and>
          other_urgent (d(''rr'' \<mapsto> PInt 22)) = Inr False \<longrightarrow>
          classify_patient_aiims_atp (d(''rr'' \<mapsto> PInt 22)) =
            Inr (''YELLOW'', [reason_yellow_vitals])) \<and>
         breathing (d(''rr'' \<mapsto> PInt 23)) = Inr True \<and>
         classify_patient_aiims_atp (d(''rr'' \<mapsto> PInt 23)) =
           Inr (''RED'', [if airway d = Inr True then reason_airway else reason_breathing]) \<and>
         time_sensitive (d(''temp'' \<mapsto> PFloat 40)) =
           Inr (flag d ''acute_chest_pain_lt_24hr'' \<or> flag d ''suspected_stroke_lt_24hr'' \<or>
                flag d ''acute_sob_lt_12hr'' \<or> num d ''pain_score'' > 7 \<or>
                flag d ''sudden_severe_headache'' \<or> flag d ''acute_limb_ischemia'' \<or>
                flag d ''history_syncope'' \<or> flag d ''abdominal_pain_sudden_onset'' \<or>
                flag d ''fever_immunocompromised'' \<or> flag d ''acute_urinary_retention'') \<and>
         yellow_vitals (d(''temp'' \<mapsto> PFloat 40)) = Inr True \<and>
         (airway (d(''temp'' \<mapsto> PFloat 40)) = Inr False \<and>
          breathing (d(''temp'' \<mapsto> PFloat 40)) = Inr False \<and>
          circulation (d(''temp'' \<mapsto> PFloat 40)) = Inr False \<and>
          altered_sensorium (d(''temp'' \<mapsto> PFloat 40)) = Inr False \<and>
          time_sensitive (d(''temp'' \<mapsto> PFloat 40)) = Inr False \<and>
          other_urgent (d(''temp'' \<mapsto> PFloat 40)) = Inr False \<longrightarrow>
          classify_patient_aiims_atp (d(''temp'' \<mapsto> PFloat 40)) =
            Inr (''YELLOW'', [reason_yellow_vitals])) \<and>
         time_sensitive (d(''temp'' \<mapsto> PFloat (401 / 10))) = Inr True \<and>
         (airway (d(''temp'' \<mapsto> PFloat (401 / 10))) = Inr False \<and>
          breathing (d(''temp'' \<mapsto> PFloat (401 / 10))) = Inr False \<and>
          circulation (d(''temp'' \<mapsto> PFloat (401 / 10))) = Inr False \<and>
          altered_sensorium (d(''temp'' \<mapsto> PFloat (401 / 10))) = Inr False \<longrightarrow>
          classify_patient_aiims_atp (d(''temp'' \<mapsto> PFloat (401 / 10))) =
            Inr (''RED'', [reason_time_sensitive])) \<and>
         (double_range d \<longrightarrow>
          (\<exists>reason. classify_patient_aiims_atp (d(''temp'' \<mapsto> PFloat (401 / 10))) =
                      Inr (''RED'', [reason])))"
proof -
  have rr: "well_formed (d(''rr'' \<mapsto> PInt 22))" "well_formed (d(''rr'' \<mapsto> PInt 23))"
    using assms by (simp_all add: wf_upd_rr)
  have temp: "well_formed (d(''temp'' \<mapsto> PFloat 40))"
    "well_formed (d(''temp'' \<mapsto> PFloat (401 / 10)))"
    using assms by (simp_all add: wf_upd_temp)
  have b22: "breathing (d(''rr'' \<mapsto> PInt 22)) =
           Inr (flag d ''talking_incomplete_sentences'' \<or> flag d ''audible_wheeze'' \<or>
                num d ''spo2'' < 90)"
    unfolding breathing_wf[OF rr(1)] by (simp add: flag_def num_def)
  have y22: "yellow_vitals (d(''rr'' \<mapsto> PInt 22)) = Inr True"
    unfolding yellow_vitals_wf[OF rr(1)] by (simp add: num_def)
  have c22: "airway (d(''rr'' \<mapsto> PInt 22)) = Inr False \<and>
          breathing (d(''rr'' \<mapsto> PInt 22)) = Inr False \<and>
          circulation (d(''rr'' \<mapsto> PInt 22)) = Inr False \<and>
          altered_sensorium (d(''rr'' \<mapsto> PInt 22)) = Inr False \<and>
          time_sensitive (d(''rr'' \<mapsto> PInt 22)) = Inr False \<and>
          other_urgent (d(''rr'' \<mapsto> PInt 22)) = Inr False \<longrightarrow>
          classify_patient_aiims_atp (d(''rr'' \<mapsto> PInt 22)) =
            Inr (''YELLOW'', [reason_yellow_vitals])"
    using yellow_after_no_red[OF rr(1) y22] by blast
  have b23: "breathing (d(''rr'' \<mapsto> PInt 23)) = Inr True"
    unfolding breathing_wf[OF rr(2)] by (simp add: num_def)
  obtain a where a: "airway d = Inr a"
    using airway_wf[OF assms] by blast
  have c23: "classify_patient_aiims_atp (d(''rr'' \<mapsto> PInt 23)) =
           Inr (''RED'', [if airway d = Inr True then reason_airway else reason_breathing])"
    unfolding classify_cases b23 airway_upd a by simp
  have t40: "time_sensitive (d(''temp'' \<mapsto> PFloat 40)) =
           Inr (flag d ''acute_chest_pain_lt_24hr'' \<or> flag d ''suspected_stroke_lt_24hr'' \<or>
                flag d ''acute_sob_lt_12hr'' \<or> num d ''pain_score'' > 7 \<or>
                flag d ''sudden_severe_headache'' \<or> flag d ''acute_limb_ischemia'' \<or>
                flag d ''history_syncope'' \<or> flag d ''abdominal_pain_sudden_onset'' \<or>
                flag d ''fever_immunocompromised'' \<or> flag d ''acute_urinary_retention'')"
    unfolding time_sensitive_wf[OF temp(1)] by (simp add: flag_def num_def)
  have y40: "yellow_vitals (d(''temp'' \<mapsto> PFloat 40)) = Inr True"
    unfolding yellow_vitals_wf[OF temp(1)] by (simp add: num_def)
  have c40: "airway (d(''temp'' \<mapsto> PFloat 40)) = Inr False \<and>
          breathing (d(''temp'' \<mapsto> PFloat 40)) = Inr False \<and>
          circulation (d(''temp'' \<mapsto> PFloat 40)) = Inr False \<and>
          altered_sensorium (d(''temp'' \<mapsto> PFloat 40)) = Inr False \<and>
          time_sensitive (d(''temp'' \<mapsto> PFloat 40)) = Inr False \<and>
          other_urgent (d(''temp'' \<mapsto> PFloat 40)) = Inr False \<longrightarrow>
          classify_patient_aiims_atp (d(''temp'' \<mapsto> PFloat 40)) =
            Inr (''YELLOW'', [reason_yellow_vitals])"
    using yellow_after_no_red[OF temp(1) y40] by blast
  have t401: "time_sensitive (d(''temp'' \<mapsto> PFloat (401 / 10))) = Inr True"
    unfolding time_sensitive_wf[OF temp(2)] by (simp add: num_def)
  have c401: "airway (d(''temp'' \<mapsto> PFloat (401 / 10))) = Inr False \<and>
          breathing (d(''temp'' \<mapsto> PFloat (401 / 10))) = Inr False \<and>
          circulation (d(''temp'' \<mapsto> PFloat (401 / 10))) = Inr False \<and>
          altered_sensorium (d(''temp'' \<mapsto> PFloat (401 / 10))) = Inr False \<longrightarrow>
          classify_patient_aiims_atp (d(''temp'' \<mapsto> PFloat (401 / 10))) =
            Inr (''RED'', [reason_time_sensitive])"
    unfolding classify_cases t401 by simp
  have r401: "double_range d \<longrightarrow>
          (\<exists>reason. classify_patient_aiims_atp (d(''temp'' \<mapsto> PFloat (401 / 10))) =
                      Inr (''RED'', [reason]))"
    using red_level[OF temp(2)] t401 by (simp add: dr_upd)
  show ?thesis
    using b22 y22 c22 b23 c23 t40 y40 c40 t401 c401 r401 by (intro conjI)
qed

lemma normal_rr22:
  "airway (normal_snapshot(''rr'' \<mapsto> PInt 22)) = Inr False"
  "breathing (normal_snapshot(''rr'' \<mapsto> PInt 22)) = Inr False"
  "circulation (normal_snapshot(''rr'' \<mapsto> PInt 22)) = Inr False"
  "altered_sensorium (normal_snapshot(''rr'' \<mapsto> PInt 22)) = Inr False"
  "time_sensitive (normal_snapshot(''rr'' \<mapsto> PInt 22)) = Inr False"
  "other_urgent (normal_snapshot(''rr'' \<mapsto> PInt 22)) = Inr False"
proof -
  have wf: "well_formed (normal_snapshot(''rr'' \<mapsto> PInt 22))"
    by (simp add: wf_upd_rr wf_normal)
  have dr: "double_range (normal_snapshot(''rr'' \<mapsto> PInt 22))"
    by (simp add: dr_upd dr_normal)
  show "airway (normal_snapshot(''rr'' \<mapsto> PInt 22)) = Inr False"
    "breathing (normal_snapshot(''rr'' \<mapsto> PInt 22)) = Inr False"
    "circulation (normal_snapshot(''rr'' \<mapsto> PInt 22)) = Inr False"
    "altered_sensorium (normal_snapshot(''rr'' \<mapsto> PInt 22)) = Inr False"
    "time_sensitive (normal_snapshot(''rr'' \<mapsto> PInt 22)) = Inr False"
    "other_urgent (normal_snapshot(''rr'' \<mapsto> PInt 22)) = Inr False"
    by (simp_all only: wf_conds[OF wf] circulation_wf[OF wf dr])
       (simp_all add: flag_def num_def normal_lookup)
qed

lemma normal_temp40:
  "airway (normal_snapshot(''temp'' \<mapsto> PFloat 40)) = Inr False"
  "breathing (normal_snapshot(''temp'' \<mapsto> PFloat 40)) = Inr False"
  "circulation (normal_snapshot(''temp'' \<mapsto> PFloat 40)) = Inr False"
  "altered_sensorium (normal_snapshot(''temp'' \<mapsto> PFloat 40)) = Inr False"
  "time_sensitive (normal_snapshot(''temp'' \<mapsto> PFloat 40)) = Inr False"
  "other_urgent (normal_snapshot(''temp'' \<mapsto> PFloat 40)) = Inr False"
proof -
  have wf: "well_formed (normal_snapshot(''temp'' \<mapsto> PFloat 40))"
    by (simp add: wf_upd_temp wf_normal)
  have dr: "double_range (normal_snapshot(''temp'' \<mapsto> PFloat 40))"
    by (simp add: dr_upd dr_normal)
  show "airway (normal_snapshot(''temp'' \<mapsto> PFloat 40)) = Inr False"
    "breathing (normal_snapshot(''temp'' \<mapsto> PFloat 40)) = Inr False"
    "circulation (normal_snapshot(''temp'' \<mapsto> PFloat 40)) = Inr False"
    "altered_sensorium (normal_snapshot(''temp'' \<mapsto> PFloat 40)) = Inr False"
    "time_sensitive (normal_snapshot(''temp'' \<mapsto> PFloat 40)) = Inr False"
    "other_urgent (normal_snapshot(''temp'' \<mapsto> PFloat 40)) = Inr False"
    by (simp_all only: wf_conds[OF wf] circulation_wf[OF wf dr])
       (simp_all add: flag_def num_def normal_lookup)
qed

lemma normal_temp401:
  "airway (normal_snapshot(''temp'' \<mapsto> PFloat (401 / 10))) = Inr False"
  "breathing (normal_snapshot(''temp'' \<mapsto> PFloat (401 / 10))) = Inr False"
  "circulation (normal_snapshot(''temp'' \<mapsto> PFloat (401 / 10))) = Inr False"
  "altered_sensorium (normal_snapshot(''temp'' \<mapsto> PFloat (401 / 10))) = Inr False"
proof -
  have wf: "well_formed (normal_snapshot(''temp'' \<mapsto> PFloat (401 / 10)))"
    by (simp add: wf_upd_temp wf_normal)
  have dr: "double_range (normal_snapshot(''temp'' \<mapsto> PFloat (401 / 10)))"
    by (simp add: dr_upd dr_normal)
  show "airway (normal_snapshot(''temp'' \<mapsto> PFloat (401 / 10))) = Inr False"
    "breathing (normal_snapshot(''temp'' \<mapsto> PFloat (401 / 10))) = Inr False"
    "circulation (normal_snapshot(''temp'' \<mapsto> PFloat (401 / 10))) = Inr False"
    "altered_sensorium (normal_snapshot(''temp'' \<mapsto> PFloat (401 / 10))) = Inr False"
    by (simp_all only: wf_conds[OF wf] circulation_wf[OF wf dr])
       (simp_all add: flag_def num_def normal_lookup)
qed

theorem band_boundaries_witness:
  "well_formed normal_snapshot \<and> double_range normal_snapshot \<and>
   airway (normal_snapshot(''rr'' \<mapsto> PInt 22)) = Inr False \<and>
   breathing (normal_snapshot(''rr'' \<mapsto> PInt 22)) = Inr False \<and>
   circulation (normal_snapshot(''rr'' \<mapsto> PInt 22)) = Inr False \<and>
   altered_sensorium (normal_snapshot(''rr'' \<mapsto> PInt 22)) = Inr False \<and>
   time_sensitive (normal_snapshot(''rr'' \<mapsto> PInt 22)) = Inr False \<and>
   other_urgent (normal_snapshot(''rr'' \<mapsto> PInt 22)) = Inr False \<and>
   yellow_vitals (normal_snapshot(''rr'' \<mapsto> PInt 22)) = Inr True \<and>
   classify_patient_aiims_atp (normal_snapshot(''rr'' \<mapsto> PInt 22)) =
     Inr (''YELLOW'', [reason_yellow_vitals]) \<and>
   breathing (normal_snapshot(''rr'' \<mapsto> PInt 23)) = Inr True \<and>
   classify_patient_aiims_atp (normal_snapshot(''rr'' \<mapsto> PInt 23)) =
     Inr (''RED'', [reason_breathing]) \<and>
   airway (normal_snapshot(''temp'' \<mapsto> PFloat 40)) = Inr False \<and>
   breathing (normal_snapshot(''temp'' \<mapsto> PFloat 40)) = Inr False \<and>
   circulation (normal_snapshot(''temp'' \<mapsto> PFloat 40)) = Inr False \<and>
   altered_sensorium (normal_snapshot(''temp'' \<mapsto> PFloat 40)) = Inr False \<and>
   time_sensitive (normal_snapshot(''temp'' \<mapsto> PFloat 40)) = Inr False \<and>
   other_urgent (normal_snapshot(''temp'' \<mapsto> PFloat 40)) = Inr False \<and>
   yellow_vitals (normal_snapshot(''temp'' \<mapsto> PFloat 40)) = Inr True \<and>
   classify_patient_aiims_atp (normal_snapshot(''temp'' \<mapsto> PFloat 40)) =
     Inr (''YELLOW'', [reason_yellow_vitals]) \<and>
   airway (normal_snapshot(''temp'' \<mapsto> PFloat (401 / 10))) = Inr False \<and>
   breathing (normal_snapshot(''temp'' \<mapsto> PFloat (401 / 10))) = Inr False \<and>
   circulation (normal_snapshot(''temp'' \<mapsto> PFloat (401 / 10))) = Inr False \<and>
   altered_sensorium (normal_snapshot(''temp'' \<mapsto> PFloat (401 / 10))) = Inr False \<and>
   time_sensitive (normal_snapshot(''temp'' \<mapsto> PFloat (401 / 10))) = Inr True \<and>
   classify_patient_aiims_atp (normal_snapshot(''temp'' \<mapsto> PFloat (401 / 10))) =
     Inr (''RED'', [reason_time_sensitive])"
  using band_boundaries[OF wf_normal] wf_normal dr_normal
  by (simp add: normal_rr22 normal_temp40 normal_temp401 normal_conds)

section \<open>The level never decreases\<close>

lemma level_rank_simps: "rank ''GREEN'' = 0" "rank ''YELLOW'' = 1" "rank ''RED'' = 2"
  by (simp_all add: rank_def)

text \<open>
  C6. In every run of the function, on any dict, the level recorded in the frames of the
  run never decreases from one statement boundary to the next; RED can only be the level of
  the last frame, the one returned, so nothing runs after a RED statement has fired; and
  the last frame of the trace is the frame the run ends with.
\<close>

theorem level_monotone:
  "sorted_wrt (\<lambda>f g. rank (triage_level f) \<le> rank (triage_level g)) (trace body (entry d)) \<and>
   ''RED'' \<notin> set (map triage_level (butlast (trace body (entry d)))) \<and>
   frame_of (exec body (entry d)) = last (trace body (entry d))"
  by (simp add: body_def entry_def red_stmt_def yellow_vitals_stmt_def yellow_symptoms_stmt_def
        default_stmt_def level_rank_simps split: sum.splits)

section \<open>The green indicators\<close>

text \<open>
  C10. Two snapshots (well-formed or not) that agree on every key except
  \<^verbatim>\<open>minor_cut_abrasion\<close>, \<^verbatim>\<open>mild_cold_symptoms\<close> and \<^verbatim>\<open>medication_refill_request\<close> get the
  same result, level and reasons alike: the function never reads these three keys.
\<close>

theorem green_flags_never_read:
  assumes "\<forall>k. k \<notin> {''minor_cut_abrasion'', ''mild_cold_symptoms'', ''medication_refill_request''}
             \<longrightarrow> d1 k = d2 k"
  shows "classify_patient_aiims_atp d1 = classify_patient_aiims_atp d2"
proof -
  have g: "\<And>k. k \<notin> {''minor_cut_abrasion'', ''mild_cold_symptoms'', ''medication_refill_request''}
             \<Longrightarrow> getitem d1 k = getitem d2 k"
    using assms by (simp add: getitem_def)
  have sbp: "getitem d1 ''sbp'' = getitem d2 ''sbp''"
    and hr: "getitem d1 ''hr'' = getitem d2 ''hr''"
    and avpu: "getitem d1 ''avpu'' = getitem d2 ''avpu''"
    by (simp_all add: g)
  have si: "shock_index d1 = shock_index d2"
    unfolding shock_index_def sbp hr ..
  have conds: "airway d1 = airway d2" "breathing d1 = breathing d2"
    "circulation d1 = circulation d2" "altered_sensorium d1 = altered_sensorium d2"
    "time_sensitive d1 = time_sensitive d2" "other_urgent d1 = other_urgent d2"
    "yellow_vitals d1 = yellow_vitals d2" "yellow_symptoms d1 = yellow_symptoms d2"
    by (simp_all add: airway_def breathing_def circulation_def altered_sensorium_def
        time_sensitive_def other_urgent_def yellow_vitals_def yellow_symptoms_def
        si avpu test_def compare_def g del: any_of.simps cong: sum.case_cong)
  show ?thesis unfolding classify_cases conds ..
qed

theorem green_flags_never_read_witness:
  "green_ticked_snapshot ''minor_cut_abrasion'' = Some (PBool True) \<and>
   normal_snapshot ''minor_cut_abrasion'' = Some (PBool False) \<and>
   green_ticked_snapshot ''mild_cold_symptoms'' = Some (PBool True) \<and>
   normal_snapshot ''mild_cold_symptoms'' = Some (PBool False) \<and>
   green_ticked_snapshot ''medication_refill_request'' = Some (PBool True) \<and>
   normal_snapshot ''medication_refill_request'' = Some (PBool False) \<and>
   classify_patient_aiims_atp normal_snapshot = classify_patient_aiims_atp green_ticked_snapshot"
proof -
  have h: "\<forall>k. k \<notin> {''minor_cut_abrasion'', ''mild_cold_symptoms'', ''medication_refill_request''}
        \<longrightarrow> normal_snapshot k = green_ticked_snapshot k"
    by (simp add: green_ticked_snapshot_def)
  have l: "green_ticked_snapshot ''minor_cut_abrasion'' = Some (PBool True)"
    "green_ticked_snapshot ''mild_cold_symptoms'' = Some (PBool True)"
    "green_ticked_snapshot ''medication_refill_request'' = Some (PBool True)"
    by (simp_all add: green_ticked_snapshot_def)
  show ?thesis
    using green_flags_never_read[OF h] l
    by (simp add: normal_lookup)
qed

section \<open>One call leaves the dict alone\<close>

lemma stmt_keeps_data: "s \<in> set body \<Longrightarrow> data (frame_of (s f)) = data f"
  by (auto simp: body_def red_stmt_def yellow_vitals_stmt_def yellow_symptoms_stmt_def
        default_stmt_def split: sum.splits)

lemma trace_keeps_data:
  "(\<And>s f. s \<in> set ss \<Longrightarrow> data (frame_of (s f)) = data f) \<Longrightarrow>
   g \<in> set (trace ss f) \<Longrightarrow> data g = data f"
proof (induction ss arbitrary: f)
  case Nil
  then show ?case by simp
next
  case (Cons s ss)
  have step: "data (frame_of (s f)) = data f"
    using Cons.prems(1) by simp
  show ?case
  proof (cases "s f")
    case (Next f')
    then show ?thesis
      using Cons.IH[of f'] Cons.prems step by auto
  qed (use Cons.prems step in auto)
qed

lemma exec_last_trace: "frame_of (exec ss f) = last (trace ss f)"
proof (induction ss arbitrary: f)
  case Nil
  then show ?case by simp
next
  case (Cons s ss)
  have ne: "\<And>g. trace ss g \<noteq> []"
    by (cases ss) simp_all
  show ?case
    using Cons.IH ne by (cases "s f") simp_all
qed

lemma call_keeps_data: "snd (call d) = d"
proof -
  have "trace body (entry d) \<noteq> []"
    by (simp add: body_def)
  then have "last (trace body (entry d)) \<in> set (trace body (entry d))"
    by (rule last_in_set)
  then have "data (frame_of (exec body (entry d))) = data (entry d)"
    using trace_keeps_data[of body _ "entry d"] stmt_keeps_data
    by (simp add: exec_last_trace)
  then show ?thesis
    by (cases "exec body (entry d)") (simp_all add: call_def entry_def)
qed

text \<open>
  C9. The function is a function of the dict's contents, and a call leaves them as they
  were. For every dict, well-formed or not and whatever the outcome (a verdict or an
  exception): the dict after the call is the dict before it, every frame of the run holds
  the unchanged dict, and a second call on the dict the first one left behind has the same
  outcome (the same level and the same reasons in the same order) and again leaves the
  dict unchanged.
\<close>

theorem classify_stateless:
  "snd (call d) = d \<and>
   list_all (\<lambda>f. data f = d) (trace body (entry d)) \<and>
   call (snd (call d)) = call d \<and>
   fst (call (snd (call d))) = classify_patient_aiims_atp d"
proof -
  have "\<forall>f \<in> set (trace body (entry d)). data f = d"
    using trace_keeps_data[of body _ "entry d"] stmt_keeps_data by (auto simp: entry_def)
  then show ?thesis
    by (simp add: call_keeps_data classify_patient_aiims_atp_def list_all_iff)
qed

section \<open>Missing fields and unknown consciousness values\<close>

lemma test_del:
  "test (d(k := None)) k' = test d k' \<or> test (d(k := None)) k' = Inl (KeyError k)"
  by (cases "k' = k") (simp_all add: test_def getitem_def)

lemma compare_del:
  "compare rel (d(k := None)) k' c = compare rel d k' c \<or>
   compare rel (d(k := None)) k' c = Inl (KeyError k)"
  by (cases "k' = k") (simp_all add: compare_def getitem_def)

lemma both_del:
  "a' = a \<or> a' = Inl e \<Longrightarrow> b' = b \<or> b' = Inl e \<Longrightarrow> both a' b' = both a b \<or> both a' b' = Inl e"
  by (auto simp: both_def split: sum.splits)

lemma any_of_del:
  "list_all2 (\<lambda>c' c. c' = c \<or> c' = Inl e) cs' cs \<Longrightarrow>
   any_of cs' = any_of cs \<or> any_of cs' = Inl e"
  by (induction rule: list_all2_induct) (auto split: sum.splits)

lemma shock_index_del:
  "shock_index (d(k := None)) = shock_index d \<or> shock_index (d(k := None)) = Inl (KeyError k)"
  by (cases "k = ''sbp''"; cases "k = ''hr''")
     (auto simp: shock_index_def getitem_def split: option.splits)

lemma conds_del:
  "airway (d(k := None)) = airway d \<or> airway (d(k := None)) = Inl (KeyError k)"
  "breathing (d(k := None)) = breathing d \<or> breathing (d(k := None)) = Inl (KeyError k)"
  "circulation (d(k := None)) = circulation d \<or> circulation (d(k := None)) = Inl (KeyError k)"
  "altered_sensorium (d(k := None)) = altered_sensorium d \<or>
   altered_sensorium (d(k := None)) = Inl (KeyError k)"
  "time_sensitive (d(k := None)) = time_sensitive d \<or>
   time_sensitive (d(k := None)) = Inl (KeyError k)"
  "other_urgent (d(k := None)) = other_urgent d \<or>
   other_urgent (d(k := None)) = Inl (KeyError k)"
  "yellow_vitals (d(k := None)) = yellow_vitals d \<or>
   yellow_vitals (d(k := None)) = Inl (KeyError k)"
  "yellow_symptoms (d(k := None)) = yellow_symptoms d \<or>
   yellow_symptoms (d(k := None)) = Inl (KeyError k)"
proof -
  show "circulation (d(k := None)) = circulation d \<or>
        circulation (d(k := None)) = Inl (KeyError k)"
    using shock_index_del[of d k]
  proof
    assume si: "shock_index (d(k := None)) = shock_index d"
    show ?thesis
      unfolding circulation_def si
      by (cases "shock_index d")
         (simp_all add: any_of_del test_del compare_del del: any_of.simps fun_upd_apply)
  next
    assume "shock_index (d(k := None)) = Inl (KeyError k)"
    then show ?thesis by (simp add: circulation_def)
  qed
  show "altered_sensorium (d(k := None)) = altered_sensorium d \<or>
        altered_sensorium (d(k := None)) = Inl (KeyError k)"
    by (cases "k = ''avpu''") (simp_all add: altered_sensorium_def getitem_def)
qed (unfold airway_def breathing_def time_sensitive_def other_urgent_def yellow_vitals_def
       yellow_symptoms_def,
     (rule any_of_del, simp add: test_del compare_del both_del del: fun_upd_apply)+)


lemma classify_del:
  "classify_patient_aiims_atp (d(k := None)) = Inl (KeyError k) \<or>
   classify_patient_aiims_atp (d(k := None)) = classify_patient_aiims_atp d"
  using conds_del[of d k] unfolding classify_cases
  by (elim disjE) (simp_all split: sum.splits)

text \<open>Only line 34 reads \<^verbatim>\<open>data['avpu']\<close>, and only to test membership in \<^verbatim>\<open>['V', 'P', 'U']\<close>.\<close>

lemma conds_upd_avpu:
  "airway (d(''avpu'' \<mapsto> v)) = airway d" "breathing (d(''avpu'' \<mapsto> v)) = breathing d"
  "circulation (d(''avpu'' \<mapsto> v)) = circulation d"
  "time_sensitive (d(''avpu'' \<mapsto> v)) = time_sensitive d"
  "other_urgent (d(''avpu'' \<mapsto> v)) = other_urgent d"
  "yellow_vitals (d(''avpu'' \<mapsto> v)) = yellow_vitals d"
  "yellow_symptoms (d(''avpu'' \<mapsto> v)) = yellow_symptoms d"
proof -
  have g: "\<And>k. k \<noteq> ''avpu'' \<Longrightarrow> getitem (d(''avpu'' \<mapsto> v)) k = getitem d k"
    by (simp add: getitem_def)
  have sbp: "getitem (d(''avpu'' \<mapsto> v)) ''sbp'' = getitem d ''sbp''"
    and hr: "getitem (d(''avpu'' \<mapsto> v)) ''hr'' = getitem d ''hr''"
    by (simp_all add: g)
  have si: "shock_index (d(''avpu'' \<mapsto> v)) = shock_index d"
    unfolding shock_index_def sbp hr ..
  show "airway (d(''avpu'' \<mapsto> v)) = airway d" "breathing (d(''avpu'' \<mapsto> v)) = breathing d"
    "circulation (d(''avpu'' \<mapsto> v)) = circulation d"
    "time_sensitive (d(''avpu'' \<mapsto> v)) = time_sensitive d"
    "other_urgent (d(''avpu'' \<mapsto> v)) = other_urgent d"
    "yellow_vitals (d(''avpu'' \<mapsto> v)) = yellow_vitals d"
    "yellow_symptoms (d(''avpu'' \<mapsto> v)) = yellow_symptoms d"
    by (simp_all add: airway_def breathing_def circulation_def time_sensitive_def
        other_urgent_def yellow_vitals_def yellow_symptoms_def si test_def compare_def g
        del: any_of.simps fun_upd_apply cong: sum.case_cong)
qed

lemma altered_sensorium_upd:
  "altered_sensorium (d(''avpu'' \<mapsto> v)) = Inr (v \<in> {PStr ''V'', PStr ''P'', PStr ''U''})"
  by (simp add: altered_sensorium_def getitem_def)

lemma avpu_other_as_alert:
  assumes "v \<notin> {PStr ''V'', PStr ''P'', PStr ''U''}"
  shows "classify_patient_aiims_atp (d(''avpu'' \<mapsto> v)) =
         classify_patient_aiims_atp (d(''avpu'' \<mapsto> PStr ''A''))"
proof -
  have "altered_sensorium (d(''avpu'' \<mapsto> v)) = altered_sensorium (d(''avpu'' \<mapsto> PStr ''A''))"
    using assms unfolding altered_sensorium_upd by simp
  then show ?thesis
    unfolding classify_cases conds_upd_avpu by (simp only:)
qed

lemma normal_avpu_alert: "normal_snapshot(''avpu'' \<mapsto> PStr ''A'') = normal_snapshot"
  by (rule ext) (simp add: normal_lookup)

text \<open>
  C7 as stated fails. The function has no validation step and no InvalidInput error. A
  consciousness value outside the four letters is accepted and classified like Alert: the
  default snapshot with \<^verbatim>\<open>avpu = 'X'\<close> gets a GREEN verdict. A missing flag does not stop
  the function either when an earlier operand already decides: with stridor ticked and the
  key \<^verbatim>\<open>angioedema\<close> absent the verdict is RED.
\<close>

theorem invalid_input_gets_verdict:
  "unknown_avpu_snapshot ''avpu'' = Some (PStr ''X'') \<and>
   classify_patient_aiims_atp unknown_avpu_snapshot = Inr (''GREEN'', [reason_default]) \<and>
   stridor_only_snapshot ''angioedema'' = None \<and>
   classify_patient_aiims_atp stridor_only_snapshot = Inr (''RED'', [reason_airway])"
proof -
  have "classify_patient_aiims_atp unknown_avpu_snapshot =
        classify_patient_aiims_atp (normal_snapshot(''avpu'' \<mapsto> PStr ''A''))"
    unfolding unknown_avpu_snapshot_def by (rule avpu_other_as_alert) simp
  then have a: "classify_patient_aiims_atp unknown_avpu_snapshot = Inr (''GREEN'', [reason_default])"
    by (simp add: normal_avpu_alert classify_cases normal_conds)
  have "airway stridor_only_snapshot = Inr True"
    by (simp add: airway_def test_def getitem_def stridor_only_snapshot_def)
  then have b: "classify_patient_aiims_atp stridor_only_snapshot = Inr (''RED'', [reason_airway])"
    by (simp add: classify_cases)
  show ?thesis
    using a b by (simp add: unknown_avpu_snapshot_def stridor_only_snapshot_def)
qed

text \<open>
  C7 as amended. A missing field is never replaced by a default value: when the key \<open>k\<close> is
  removed from a dict, the function either raises \<^verbatim>\<open>KeyError\<close> for \<open>k\<close> (a read of \<open>k\<close> was
  reached) or returns what it returns on the dict itself (no read of \<open>k\<close> was reached).
  A consciousness value other than \<^verbatim>\<open>'V'\<close>, \<^verbatim>\<open>'P'\<close>, \<^verbatim>\<open>'U'\<close> raises nothing and is
  classified exactly like \<^verbatim>\<open>'A'\<close>.
\<close>

theorem missing_key_and_unknown_avpu:
  "(classify_patient_aiims_atp (d(k := None)) = Inl (KeyError k) \<or>
    classify_patient_aiims_atp (d(k := None)) = classify_patient_aiims_atp d) \<and>
   (v \<notin> {PStr ''V'', PStr ''P'', PStr ''U''} \<longrightarrow>
    classify_patient_aiims_atp (d(''avpu'' \<mapsto> v)) =
    classify_patient_aiims_atp (d(''avpu'' \<mapsto> PStr ''A'')))"
  using classify_del[of d k] avpu_other_as_alert[of v d] by blast

theorem missing_key_and_unknown_avpu_witness:
  "PStr ''X'' \<notin> {PStr ''V'', PStr ''P'', PStr ''U''} \<and>
   classify_patient_aiims_atp (normal_snapshot(''stridor'' := None)) = Inl (KeyError ''stridor'') \<and>
   classify_patient_aiims_atp (normal_snapshot(''avpu'' \<mapsto> PStr ''X'')) =
   classify_patient_aiims_atp (normal_snapshot(''avpu'' \<mapsto> PStr ''A''))"
proof -
  have "airway (normal_snapshot(''stridor'' := None)) = Inl (KeyError ''stridor'')"
    by (simp add: airway_def test_def getitem_def)
  then have "classify_patient_aiims_atp (normal_snapshot(''stridor'' := None)) =
             Inl (KeyError ''stridor'')"
    by (simp add: classify_cases)
  then show ?thesis
    using missing_key_and_unknown_avpu[of normal_snapshot "''stridor''" "PStr ''X''"]
    by simp
qed


end
